theory Spec2Isabelle
  imports Complex_Main "HOL-Library.Word"
begin

unbundle bit_operations_syntax

section \<open>JavaScript numbers\<close>

text \<open>
  Every number of the program is an IEEE-754 double. Two kinds of values occur.

  \<^item> Integer-valued doubles that are fed to the 32-bit operators (\<open>^\<close>, \<open>|\<close>, \<open>&\<close>,
    \<open><<\<close>, \<open>>>>\<close>, \<open>Math.imul\<close>): the generator's seed and the lattice hash. They are
    modelled as \<open>int\<close>, and every \<open>+\<close> and \<open>*\<close> that produces one is followed by
    \<open>fl\<close>, the rounding of an integer to the nearest double (53 significant bits, ties
    to even). The hash leaves the exact range \<open>2^53\<close> on ordinary inputs, so the rounding
    decides what the code computes there. \<open>ToInt32\<close> is \<open>word_of_int\<close> into \<open>32 word\<close>.
  \<^item> Coordinates, distances, scales and progress values: they are modelled as \<open>real\<close>,
    with the arithmetic of the source taken exactly. Where a property depends on the
    last bit of a fractional result, the arithmetic takes the rounding as a parameter and
    is instantiated with \<open>rd\<close> below.

  \<open>bitlen z\<close> is the number of binary digits of a positive integer. For \<open>\<bar>z\<bar> \<ge> 2^53\<close> the
  unit in the last place of the double is \<open>2^e\<close> with \<open>e = bitlen \<bar>z\<bar> - 53\<close>; \<open>fl\<close> rounds
  \<open>\<bar>z\<bar>\<close> to the nearest multiple of it, a tie to the multiple with even quotient. The
  integers of the program stay far below the largest double, so overflow to \<open>Infinity\<close>
  does not occur in the lines modelled with \<open>fl\<close>.
\<close>

function bitlen :: "int \<Rightarrow> nat" where
  "bitlen z = (if z \<le> 0 then 0 else Suc (bitlen (z div 2)))"
  by pat_completeness auto
termination
  by (relation "measure nat") auto

declare bitlen.simps [simp del]

definition fl :: "int \<Rightarrow> int" where
  "fl z = (if \<bar>z\<bar> < 2 ^ 53 then z
           else let e = bitlen \<bar>z\<bar> - 53;
                    q = \<bar>z\<bar> div 2 ^ e;
                    r = \<bar>z\<bar> mod 2 ^ e;
                    h = 2 ^ (e - 1)
                in sgn z * ((if r < h \<or> (r = h \<and> even q) then q else q + 1) * 2 ^ e))"

definition ToInt32 :: "int \<Rightarrow> 32 word" where
  "ToInt32 z = word_of_int z"

text \<open>
  The rounding of a real to the nearest double, ties to even, for the one place where a
  claim is about the last bit of a fractional result (the upper end of \<open>randFloat\<close>).
  \<open>exponent2 x\<close> is the \<open>E\<close> with \<open>2^E \<le> x < 2^(E + 1)\<close> for \<open>x > 0\<close>; the unit in the last
  place is \<open>2^(E - 52)\<close>, and \<open>2^(-1074)\<close> for subnormal numbers. Overflow to \<open>Infinity\<close>
  is not modelled.
\<close>

definition pow2 :: "int \<Rightarrow> real" where
  "pow2 e = (if 0 \<le> e then 2 ^ nat e else 1 / 2 ^ nat (- e))"

definition exponent2 :: "real \<Rightarrow> int" where
  "exponent2 x = (if 1 \<le> x then int (bitlen \<lfloor>x\<rfloor>) - 1 else - int (bitlen (\<lceil>1 / x\<rceil> - 1)))"

definition roundHalfEven :: "real \<Rightarrow> int" where
  "roundHalfEven m =
     (let f = \<lfloor>m\<rfloor>; d = m - of_int f
      in if d < 1 / 2 \<or> (d = 1 / 2 \<and> even f) then f else f + 1)"

definition rd :: "real \<Rightarrow> real" where
  "rd x = (if x = 0 then 0
           else let e = max (exponent2 \<bar>x\<bar> - 52) (- 1074)
                in sgn x * (of_int (roundHalfEven (\<bar>x\<bar> / pow2 e)) * pow2 e))"

section \<open>utils/Random.js\<close>

text \<open>
  \<open>SeededRandom\<close> has the one field \<open>seed\<close>. The constructor takes the seed, or, when it
  is \<open>undefined\<close> or \<open>null\<close> (\<open>None\<close>), the clock value \<open>Date.now()\<close>, which the model
  receives as the second argument.
\<close>

record SeededRandom =
  seed :: int

definition SeededRandom_new :: "int option \<Rightarrow> int \<Rightarrow> SeededRandom" where
  "SeededRandom_new s now = \<lparr>seed = (case s of None \<Rightarrow> now | Some v \<Rightarrow> v)\<rparr>"

text \<open>
  \<open>random()\<close>: \<open>this.seed += 0x6D2B79F5\<close> is an addition of doubles and the field keeps
  the sum, which is never reduced to 32 bits; the three mixing lines work on its low 32
  bits. \<open>Math.imul\<close> is the multiplication of \<open>32 word\<close>, \<open>>>>\<close> is \<open>drop_bit\<close>, and
  \<open>>>> 0\<close> reads the word as unsigned.
\<close>

definition random :: "SeededRandom \<Rightarrow> real \<times> SeededRandom" where
  "random prng =
     (let s = fl (seed prng + 0x6D2B79F5);
          t = ToInt32 s;
          t = (t XOR drop_bit 15 t) * (t OR 1);
          t = t XOR (t + (t XOR drop_bit 7 t) * (t OR 61))
      in (real (unat (t XOR drop_bit 14 t)) / 4294967296, prng\<lparr>seed := s\<rparr>))"

text \<open>
  \<open>randFloat(min, max)\<close> is \<open>this.random() * (max - min) + min\<close>: a subtraction, a
  multiplication and an addition of doubles. \<open>randFloatWith\<close> is that expression with the
  rounding of each operation as a parameter: \<open>rd\<close> gives the function as it runs, the
  identity gives it in exact arithmetic. The placement passes and the terrain are stated
  with the exact \<open>randFloat\<close>, as all fractional arithmetic there.
\<close>

definition randFloatWith ::
  "(real \<Rightarrow> real) \<Rightarrow> SeededRandom \<Rightarrow> real \<Rightarrow> real \<Rightarrow> real \<times> SeededRandom" where
  "randFloatWith rnd prng lo hi =
     (let (r, prng') = random prng in (rnd (rnd (r * rnd (hi - lo)) + lo), prng'))"

definition randFloat :: "SeededRandom \<Rightarrow> real \<Rightarrow> real \<Rightarrow> real \<times> SeededRandom" where
  "randFloat = randFloatWith (\<lambda>x. x)"

definition randIntWith ::
  "(real \<Rightarrow> real) \<Rightarrow> SeededRandom \<Rightarrow> real \<Rightarrow> real \<Rightarrow> real \<times> SeededRandom" where
  "randIntWith rnd prng lo hi =
     (let (r, prng') = random prng
      in (of_int \<lfloor>rnd (rnd (r * rnd (hi - lo)) + lo)\<rfloor>, prng'))"

definition randInt :: "SeededRandom \<Rightarrow> real \<Rightarrow> real \<Rightarrow> real \<times> SeededRandom" where
  "randInt = randIntWith (\<lambda>x. x)"

definition getPlacementPrng :: SeededRandom where
  "getPlacementPrng = SeededRandom_new (Some 54321) 0"

text \<open>
  A sequence of calls issued to one instance, and the outputs it returns in order, for
  any rounding \<open>rnd\<close> of the arithmetic.
\<close>

datatype call = Random | RandFloat real real | RandInt real real

fun issue1 :: "(real \<Rightarrow> real) \<Rightarrow> SeededRandom \<Rightarrow> call \<Rightarrow> real \<times> SeededRandom" where
  "issue1 rnd prng Random = random prng"
| "issue1 rnd prng (RandFloat lo hi) = randFloatWith rnd prng lo hi"
| "issue1 rnd prng (RandInt lo hi) = randIntWith rnd prng lo hi"

fun issue :: "(real \<Rightarrow> real) \<Rightarrow> SeededRandom \<Rightarrow> call list \<Rightarrow> real list \<times> SeededRandom" where
  "issue rnd prng [] = ([], prng)"
| "issue rnd prng (c # cs) =
     (let (v, prng') = issue1 rnd prng c; (vs, prng'') = issue rnd prng' cs
      in (v # vs, prng''))"

section \<open>mushrooms/MushroomGenerator.js: the split of the count\<close>

text \<open>
  \<open>createMushroomGeometries\<close> returns three templates, tagged 1, 2 and 3; only the tags
  and the length of the array take part in the counting.
\<close>

definition createMushroomGeometries :: "nat list" where
  "createMushroomGeometries = [1, 2, 3]"

definition mushroomCounts :: "nat \<Rightarrow> nat list" where
  "mushroomCounts MUSHROOM_COUNT =
     (let mushroomTemplates = createMushroomGeometries;
          countPerVariety = MUSHROOM_COUNT div length mushroomTemplates;
          remaining = MUSHROOM_COUNT mod length mushroomTemplates
      in map (\<lambda>index. countPerVariety + (if index < remaining then 1 else 0))
           [0 ..< length mushroomTemplates])"

text \<open>The list of type tags before the shuffle: \<open>count\<close> copies of \<open>typeIndex + 1\<close>.\<close>

definition instanceTypes0 :: "nat list \<Rightarrow> nat list" where
  "instanceTypes0 counts =
     concat (map (\<lambda>(count, typeIndex). replicate count (typeIndex + 1))
                 (zip counts [0 ..< length counts]))"

section \<open>scene/SceneManager.js: the day/night cycle\<close>

text \<open>
  The module-level variables of the scene that the cycle reads or writes form the record
  \<open>world\<close>. Lights, materials and meshes are \<open>undefined\<close> until \<open>init\<close> has created them
  (\<open>None\<close>); the source guards most uses with \<open>if (x)\<close>. A colour is its hexadecimal
  number, a fog is (colour, near, far). The functions are those of
  \<^verbatim>\<open>scene/SceneManager.js\<close>, which \<open>animate\<close> calls; the lighting module of the
  repository holds them in a form that takes the same variables as parameters and sets the
  same position, opacity, scale and visibility.
\<close>

type_synonym colour = nat
type_synonym vec3 = "real \<times> real \<times> real"

record settings =
  background :: colour
  fog :: "colour \<times> real \<times> real"
  ambientLightIntensity :: real
  directionalLightIntensity :: real
  directionalLightColor :: colour
  groundColor :: colour
  trunkColor :: colour
  deciduousFoliageColor :: colour
  coniferousFoliageColor :: colour

definition daySettings :: settings where
  "daySettings = \<lparr>background = 0x87CEEB, fog = (0xcce0ff, 10, 50),
     ambientLightIntensity = 0.5, directionalLightIntensity = 0.8,
     directionalLightColor = 0xffffff, groundColor = 0x8FBC8F, trunkColor = 0xA0522D,
     deciduousFoliageColor = 0x556B2F, coniferousFoliageColor = 0x228B22\<rparr>"

definition nightSettings :: settings where
  "nightSettings = \<lparr>background = 0x0a0a20, fog = (0x0a0a20, 25, 70),
     ambientLightIntensity = 0.5, directionalLightIntensity = 0.8,
     directionalLightColor = 0xc0c0ff, groundColor = 0x6A7F6A, trunkColor = 0xA06A35,
     deciduousFoliageColor = 0x4E8B57, coniferousFoliageColor = 0x208420\<rparr>"

definition LIGHT_ORBIT_RADIUS :: real where "LIGHT_ORBIT_RADIUS = 25"
definition DAY_CYCLE_DURATION :: real where "DAY_CYCLE_DURATION = 60"
definition NIGHT_CYCLE_DURATION :: real where "NIGHT_CYCLE_DURATION = 45"

record mesh =
  mesh_position :: vec3
  mesh_opacity :: real
  mesh_transparent :: bool
  mesh_scale :: real
  mesh_visible :: bool

record dlight =
  light_intensity :: real
  light_color :: colour
  light_position :: vec3
  light_target :: vec3

record world =
  isDaytime :: bool
  dayTimeProgress :: real
  nightTimeProgress :: real
  scene_background :: colour
  scene_fog :: "colour \<times> real \<times> real"
  ambientLight :: "real option"
  directionalLight :: "dlight option"
  groundMaterial :: "colour option"
  trunkMaterial :: "colour option"
  deciduousFoliageMaterial :: "colour option"
  coniferousFoliageMaterial :: "colour option"
  sunMesh :: "mesh option"
  moonMesh :: "mesh option"
  toggleText :: string

text \<open>
  \<open>THREE.MathUtils.smoothstep(x, min, max)\<close> of three.js: 0 below \<open>min\<close>, 1 above \<open>max\<close>,
  the cubic \<open>t * t * (3 - 2 * t)\<close> between. \<open>meshToUpdate.position.copy(directionalLight.position)\<close>
  is not guarded: with a mesh and no light it raises a \<open>TypeError\<close>.
\<close>

datatype js_error = TypeError

definition smoothstep :: "real \<Rightarrow> real \<Rightarrow> real \<Rightarrow> real" where
  "smoothstep x lo hi =
     (if x \<le> lo then 0 else if x \<ge> hi then 1
      else let t = (x - lo) / (hi - lo) in t * t * (3 - 2 * t))"

definition updateCelestialBodyPosition :: "real \<Rightarrow> bool \<Rightarrow> world \<Rightarrow> js_error + world" where
  "updateCelestialBodyPosition progress isDay w =
     (let alpha = (1.0 - progress) * pi;
          x = LIGHT_ORBIT_RADIUS * cos alpha;
          y = LIGHT_ORBIT_RADIUS * sin alpha;
          z = LIGHT_ORBIT_RADIUS * cos (alpha - pi / 2);
          w = (case directionalLight w of
                 None \<Rightarrow> w
               | Some l \<Rightarrow>
                   w\<lparr>directionalLight := Some (l\<lparr>light_position := (z, y, x), light_target := (0, 0, 0)\<rparr>)\<rparr>);
          hide = (\<lambda>w. if isDay then w\<lparr>moonMesh := map_option (\<lambda>m. m\<lparr>mesh_visible := False\<rparr>) (moonMesh w)\<rparr>
                       else w\<lparr>sunMesh := map_option (\<lambda>m. m\<lparr>mesh_visible := False\<rparr>) (sunMesh w)\<rparr>)
      in case (if isDay then sunMesh w else moonMesh w) of
           None \<Rightarrow> Inr (hide w)
         | Some meshToUpdate \<Rightarrow>
             (case directionalLight w of
                None \<Rightarrow> Inl TypeError
              | Some l \<Rightarrow>
                  let heightFactor = max 0 (y / LIGHT_ORBIT_RADIUS);
                      m = meshToUpdate\<lparr>
                            mesh_position := light_position l,
                            mesh_opacity := smoothstep heightFactor 0.05 0.15,
                            mesh_transparent := True,
                            mesh_scale := max 0.5 (heightFactor * (if isDay then 1.2 else 1.0) + 0.1),
                            mesh_visible := ((isDay = isDaytime w) \<and> y > - 0.1)\<rparr>
                  in Inr (hide (if isDay then w\<lparr>sunMesh := Some m\<rparr> else w\<lparr>moonMesh := Some m\<rparr>))))"

definition applySceneState :: "settings \<Rightarrow> real \<Rightarrow> world \<Rightarrow> js_error + world" where
  "applySceneState st progress w =
     (let w = w\<lparr>scene_background := background st, scene_fog := fog st\<rparr>;
          w = w\<lparr>ambientLight := map_option (\<lambda>_. ambientLightIntensity st) (ambientLight w)\<rparr>;
          w = w\<lparr>directionalLight :=
                  map_option (\<lambda>l. l\<lparr>light_intensity := directionalLightIntensity st,
                                       light_color := directionalLightColor st\<rparr>) (directionalLight w)\<rparr>;
          currentProgress = (if isDaytime w then dayTimeProgress w else nightTimeProgress w)
      in case updateCelestialBodyPosition currentProgress (isDaytime w) w of
           Inl e \<Rightarrow> Inl e
         | Inr w \<Rightarrow>
             Inr (w\<lparr>groundMaterial := map_option (\<lambda>_. groundColor st) (groundMaterial w),
                    trunkMaterial := map_option (\<lambda>_. trunkColor st) (trunkMaterial w),
                    deciduousFoliageMaterial :=
                      map_option (\<lambda>_. deciduousFoliageColor st) (deciduousFoliageMaterial w),
                    coniferousFoliageMaterial :=
                      map_option (\<lambda>_. coniferousFoliageColor st) (coniferousFoliageMaterial w)\<rparr>))"

text \<open>
  The part of \<open>animate\<close> that advances the cycle; \<open>delta\<close> is \<open>clock.getDelta()\<close>. The rest
  of the frame (portal time, falling mushrooms, controls, rendering) does not touch the
  cycle's variables.
\<close>

definition animate :: "real \<Rightarrow> world \<Rightarrow> js_error + world" where
  "animate delta w =
     (if isDaytime w then
        let w = w\<lparr>dayTimeProgress := dayTimeProgress w + delta / DAY_CYCLE_DURATION\<rparr>
        in if dayTimeProgress w \<ge> 1.0 then
             let w = w\<lparr>isDaytime := False, nightTimeProgress := 0, dayTimeProgress := 0\<rparr>
             in (case applySceneState nightSettings (nightTimeProgress w) w of
                   Inl e \<Rightarrow> Inl e
                 | Inr w \<Rightarrow> Inr (w\<lparr>toggleText := ''Switch to Night''\<rparr>))
           else updateCelestialBodyPosition (dayTimeProgress w) True w
      else
        let w = w\<lparr>nightTimeProgress := nightTimeProgress w + delta / NIGHT_CYCLE_DURATION\<rparr>
        in if nightTimeProgress w \<ge> 1.0 then
             let w = w\<lparr>isDaytime := True, dayTimeProgress := 0, nightTimeProgress := 0\<rparr>
             in (case applySceneState daySettings (dayTimeProgress w) w of
                   Inl e \<Rightarrow> Inl e
                 | Inr w \<Rightarrow> Inr (w\<lparr>toggleText := ''Switch to Day''\<rparr>))
           else updateCelestialBodyPosition (nightTimeProgress w) False w)"

text \<open>The notions the claim about a tick is stated with.\<close>

definition scene_ready :: "world \<Rightarrow> bool" where
  "scene_ready w \<longleftrightarrow>
     ambientLight w \<noteq> None \<and> directionalLight w \<noteq> None \<and> groundMaterial w \<noteq> None \<and>
     trunkMaterial w \<noteq> None \<and> deciduousFoliageMaterial w \<noteq> None \<and>
     coniferousFoliageMaterial w \<noteq> None \<and> sunMesh w \<noteq> None \<and> moonMesh w \<noteq> None"

definition activeProgress :: "world \<Rightarrow> real" where
  "activeProgress w = (if isDaytime w then dayTimeProgress w else nightTimeProgress w)"

definition activeDuration :: "world \<Rightarrow> real" where
  "activeDuration w = (if isDaytime w then DAY_CYCLE_DURATION else NIGHT_CYCLE_DURATION)"

definition cycle_inv :: "world \<Rightarrow> bool" where
  "cycle_inv w \<longleftrightarrow> 0 \<le> dayTimeProgress w \<and> dayTimeProgress w < 1 \<and>
                   0 \<le> nightTimeProgress w \<and> nightTimeProgress w < 1"

definition snapshot_applied :: "settings \<Rightarrow> world \<Rightarrow> bool" where
  "snapshot_applied st w \<longleftrightarrow>
     scene_background w = background st \<and> scene_fog w = fog st \<and>
     ambientLight w = Some (ambientLightIntensity st) \<and>
     map_option light_intensity (directionalLight w) = Some (directionalLightIntensity st) \<and>
     map_option light_color (directionalLight w) = Some (directionalLightColor st) \<and>
     groundMaterial w = Some (groundColor st) \<and> trunkMaterial w = Some (trunkColor st) \<and>
     deciduousFoliageMaterial w = Some (deciduousFoliageColor st) \<and>
     coniferousFoliageMaterial w = Some (coniferousFoliageColor st)"

definition activeBody :: "world \<Rightarrow> mesh option" where
  "activeBody w = (if isDaytime w then sunMesh w else moonMesh w)"

definition inactiveBody :: "world \<Rightarrow> mesh option" where
  "inactiveBody w = (if isDaytime w then moonMesh w else sunMesh w)"

text \<open>An initialised scene in the day phase at progress 0.98.\<close>

definition day98 :: world where
  "day98 = \<lparr>isDaytime = True, dayTimeProgress = 0.98, nightTimeProgress = 0,
     scene_background = 0x87CEEB, scene_fog = (0xcce0ff, 10, 50),
     ambientLight = Some 0.5,
     directionalLight = Some \<lparr>light_intensity = 0.8, light_color = 0xffffff,
        light_position = (0, 0, 0), light_target = (0, 0, 0)\<rparr>,
     groundMaterial = Some 0x8FBC8F, trunkMaterial = Some 0xA0522D,
     deciduousFoliageMaterial = Some 0x556B2F, coniferousFoliageMaterial = Some 0x228B22,
     sunMesh = Some \<lparr>mesh_position = (0, 0, 0), mesh_opacity = 1, mesh_transparent = True,
        mesh_scale = 1, mesh_visible = True\<rparr>,
     moonMesh = Some \<lparr>mesh_position = (0, 0, 0), mesh_opacity = 1, mesh_transparent = True,
        mesh_scale = 1, mesh_visible = False\<rparr>,
     toggleText = ''Switch to Night''\<rparr>"

section \<open>terrain/TerrainGenerator.js\<close>

text \<open>
  The terrain module comes with the shared constants of \<^verbatim>\<open>utils/Constants.js\<close>;
  \<^verbatim>\<open>scene/SceneManager.js\<close> holds the same three functions with the same bodies.
\<close>

definition TERRAIN_MAX_HEIGHT :: real where "TERRAIN_MAX_HEIGHT = 3.5"
definition TERRAIN_BASE_FREQUENCY :: real where "TERRAIN_BASE_FREQUENCY = 0.04"
definition TERRAIN_OCTAVES :: nat where "TERRAIN_OCTAVES = 5"
definition TERRAIN_PERSISTENCE :: real where "TERRAIN_PERSISTENCE = 0.45"
definition TERRAIN_LACUNARITY :: real where "TERRAIN_LACUNARITY = 2.1"

text \<open>
  \<open>pseudoRandom(ix, iz)\<close> for integer arguments. The first and the third line are
  arithmetic of doubles, so each operation rounds (\<open>fl\<close>); the second and the fourth line
  are 32-bit operations, which start with \<open>ToInt32\<close> and give a signed 32-bit value
  (\<open>sint\<close>). The last line is a division and a subtraction of reals.
\<close>

definition pseudoRandom :: "int \<Rightarrow> int \<Rightarrow> real" where
  "pseudoRandom ix iz =
     (let n = fl (ix + fl (iz * 57));
          n = sint (push_bit 13 (ToInt32 n) XOR ToInt32 n);
          n = fl (fl (n * fl (fl (fl (n * n) * 15731) + 789221)) + 1376312589);
          n = sint (ToInt32 n AND 0x7fffffff)
      in 1.0 - real_of_int n / 1073741823.0)"

text \<open>\<open>THREE.MathUtils.lerp(x, y, t)\<close> of three.js is \<open>(1 - t) * x + t * y\<close>.\<close>

definition lerp :: "real \<Rightarrow> real \<Rightarrow> real \<Rightarrow> real" where
  "lerp x y t = (1 - t) * x + t * y"

definition interpolatedNoise :: "real \<Rightarrow> real \<Rightarrow> real \<Rightarrow> real" where
  "interpolatedNoise x z frequency =
     (let scaledX = x * frequency;
          scaledZ = z * frequency;
          intX = \<lfloor>scaledX\<rfloor>;
          fracX = scaledX - of_int intX;
          intZ = \<lfloor>scaledZ\<rfloor>;
          fracZ = scaledZ - of_int intZ;
          v1 = pseudoRandom intX intZ;
          v2 = pseudoRandom (intX + 1) intZ;
          v3 = pseudoRandom intX (intZ + 1);
          v4 = pseudoRandom (intX + 1) (intZ + 1);
          smoothFracX = fracX * fracX * (3 - 2 * fracX);
          smoothFracZ = fracZ * fracZ * (3 - 2 * fracZ);
          i1 = lerp v1 v2 smoothFracX;
          i2 = lerp v3 v4 smoothFracX
      in lerp i1 i2 smoothFracZ)"

text \<open>
  The loop of \<open>getTerrainHeight\<close>, with its five variables; it returns \<open>totalHeight\<close> and
  \<open>normalizationFactor\<close> as they are when the loop ends.
\<close>

function terrainLoop ::
  "real \<Rightarrow> real \<Rightarrow> nat \<Rightarrow> real \<Rightarrow> real \<Rightarrow> real \<Rightarrow> real \<Rightarrow> real \<times> real" where
  "terrainLoop worldX worldZ i totalHeight currentFrequency currentAmplitude normalizationFactor =
     (if i < TERRAIN_OCTAVES
      then terrainLoop worldX worldZ (i + 1)
             (totalHeight + interpolatedNoise worldX worldZ currentFrequency * currentAmplitude)
             (currentFrequency * TERRAIN_LACUNARITY)
             (currentAmplitude * TERRAIN_PERSISTENCE)
             (normalizationFactor + currentAmplitude)
      else (totalHeight, normalizationFactor))"
  by pat_completeness auto
termination
  by (relation "measure (\<lambda>(x, z, i, t, f, a, n). TERRAIN_OCTAVES - i)") auto

declare terrainLoop.simps [simp del]

definition getTerrainHeight :: "real \<Rightarrow> real \<Rightarrow> real" where
  "getTerrainHeight worldX worldZ =
     (let (totalHeight, normalizationFactor) =
            terrainLoop worldX worldZ 0 0 TERRAIN_BASE_FREQUENCY 1.0 0
      in (totalHeight / normalizationFactor) * TERRAIN_MAX_HEIGHT)"

text \<open>
  The reference definition of the specification, in its words: value noise is the
  bilinear blend of the four surrounding lattice hashes with the weight \<open>t\<^sup>2(3 - 2t)\<close> of
  the fractional offset on each axis; the height is the sum over five octaves, with
  frequency \<open>0.04 * 2.1^i\<close> and amplitude \<open>0.45^i\<close>, divided by the sum of the amplitudes
  and multiplied by 3.5.
\<close>

definition smoothWeight :: "real \<Rightarrow> real" where
  "smoothWeight t = t\<^sup>2 * (3 - 2 * t)"

definition valueNoise_reference :: "real \<Rightarrow> real \<Rightarrow> real \<Rightarrow> real" where
  "valueNoise_reference x z f =
     (let ix = \<lfloor>x * f\<rfloor>; iz = \<lfloor>z * f\<rfloor>;
          wx = smoothWeight (x * f - of_int ix);
          wz = smoothWeight (z * f - of_int iz)
      in (1 - wx) * (1 - wz) * pseudoRandom ix iz
       + wx * (1 - wz) * pseudoRandom (ix + 1) iz
       + (1 - wx) * wz * pseudoRandom ix (iz + 1)
       + wx * wz * pseudoRandom (ix + 1) (iz + 1))"

definition fbm_reference :: "real \<Rightarrow> real \<Rightarrow> real" where
  "fbm_reference x z =
     (\<Sum>i < 5. valueNoise_reference x z (0.04 * 2.1 ^ i) * 0.45 ^ i) / (\<Sum>i < 5. 0.45 ^ i) * 3.5"

text \<open>
  One row of the interpolation, used to state the continuity argument: the blend of the
  lattice values \<open>a k\<close> and \<open>a (k + 1)\<close> around \<open>s\<close>, as \<open>interpolatedNoise\<close> computes \<open>i1\<close>
  and \<open>i2\<close>.
\<close>

definition latticeRow :: "(int \<Rightarrow> real) \<Rightarrow> real \<Rightarrow> real" where
  "latticeRow a s = lerp (a \<lfloor>s\<rfloor>) (a (\<lfloor>s\<rfloor> + 1)) (smoothWeight (s - of_int \<lfloor>s\<rfloor>))"

section \<open>forest/TreeGenerator.js and mushrooms/MushroomGenerator.js: placement\<close>

text \<open>
  \<open>createInstancedTrees\<close> is in \<^verbatim>\<open>forest/TreeGenerator.js\<close>, \<open>createInstancedMushrooms\<close>
  in \<^verbatim>\<open>mushrooms/MushroomGenerator.js\<close>. Both write one matrix per instance into instanced meshes;
  the trunk and the foliage of a tree, and the stem and the cap of a mushroom, receive the
  same matrix, so the model keeps the transform once. The height function is a parameter
  of both passes, as in the source.
\<close>

text \<open>
  A placed instance: the position \<open>(x, terrainY, z)\<close>, the yaw and the uniform scale that
  go into the instance matrix, and for a mushroom the type tag read from
  \<open>instanceTypes[i]\<close> (\<open>None\<close> for a tree, or where the array has no entry).
\<close>

record placedInstance =
  inst_x :: real
  inst_y :: real
  inst_z :: real
  inst_rotation :: real
  inst_scale :: real
  inst_type :: "nat option"

definition planarDistance :: "placedInstance \<Rightarrow> real" where
  "planarDistance p = sqrt (inst_x p * inst_x p + inst_z p * inst_z p)"

text \<open>
  The templates draw from the generator before any tree is placed: three draws for the
  deciduous template, one for the coniferous one. The values returned are the trunk
  height and the offsets of the foliage.
\<close>

definition createDeciduousTreeGeometry :: "SeededRandom \<Rightarrow> (real \<times> real \<times> real) \<times> SeededRandom" where
  "createDeciduousTreeGeometry prng =
     (let (trunkHeight, prng) = randFloat prng 1.5 2.5;
          trunkRadius = trunkHeight * 0.1;
          (dx, prng) = randFloat prng (- trunkRadius * 0.5) (trunkRadius * 0.5);
          (dz, prng) = randFloat prng (- trunkRadius * 0.5) (trunkRadius * 0.5)
      in ((trunkHeight, dx, dz), prng))"

definition createConiferousTreeGeometry :: "SeededRandom \<Rightarrow> real \<times> SeededRandom" where
  "createConiferousTreeGeometry prng = randFloat prng 2.0 3.5"

text \<open>
  The \<open>do ... while\<close> loops have no bound on their iterations, so they are partial
  functions: \<open>None\<close> is the run that never leaves the loop.
\<close>

partial_function (option) treePosition ::
  "real \<Rightarrow> real \<Rightarrow> SeededRandom \<Rightarrow> ((real \<times> real) \<times> SeededRandom) option" where
  "treePosition SPREAD MIN_DISTANCE_FROM_CENTER_TREES prng =
     (let (x, prng) = randFloat prng (- SPREAD) SPREAD;
          (z, prng) = randFloat prng (- SPREAD) SPREAD;
          dist = sqrt (x * x + z * z)
      in if dist < MIN_DISTANCE_FROM_CENTER_TREES
         then treePosition SPREAD MIN_DISTANCE_FROM_CENTER_TREES prng
         else Some ((x, z), prng))"

partial_function (option) mushroomPosition ::
  "real \<Rightarrow> real \<Rightarrow> SeededRandom \<Rightarrow> ((real \<times> real) \<times> SeededRandom) option" where
  "mushroomPosition SPREAD MIN_DISTANCE_FROM_GATEWAY_CENTER prng =
     (let (x, prng) = randFloat prng (- SPREAD) SPREAD;
          (z, prng) = randFloat prng (- SPREAD) SPREAD;
          dist = sqrt (x * x + z * z)
      in if dist < MIN_DISTANCE_FROM_GATEWAY_CENTER \<or> dist > SPREAD * 0.9
         then mushroomPosition SPREAD MIN_DISTANCE_FROM_GATEWAY_CENTER prng
         else Some ((x, z), prng))"

text \<open>
  One \<open>for\<close> loop of \<open>createInstancedTrees\<close>, by the number of iterations left; \<open>lo\<close> and
  \<open>hi\<close> are the bounds of the scale variation of the kind of tree.
\<close>

fun placeTrees ::
  "nat \<Rightarrow> (real \<Rightarrow> real \<Rightarrow> real) \<Rightarrow> real \<Rightarrow> real \<Rightarrow> real \<Rightarrow> real \<Rightarrow> SeededRandom \<Rightarrow>
     (placedInstance list \<times> SeededRandom) option" where
  "placeTrees 0 getHeight SPREAD MIN_DISTANCE lo hi prng = Some ([], prng)"
| "placeTrees (Suc n) getHeight SPREAD MIN_DISTANCE lo hi prng =
     (case treePosition SPREAD MIN_DISTANCE prng of
        None \<Rightarrow> None
      | Some ((x, z), prng) \<Rightarrow>
          let terrainY = getHeight x z;
              (scaleVariation, prng) = randFloat prng lo hi;
              (r, prng) = random prng;
              dummy = \<lparr>inst_x = x, inst_y = terrainY, inst_z = z, inst_rotation = r * pi * 2,
                       inst_scale = scaleVariation, inst_type = None\<rparr>
          in (case placeTrees n getHeight SPREAD MIN_DISTANCE lo hi prng of
                None \<Rightarrow> None
              | Some (rest, prng) \<Rightarrow> Some (dummy # rest, prng)))"

text \<open>
  \<open>createInstancedTrees\<close>: the deciduous and the coniferous instances, in index order,
  and the generator as the pass leaves it.
\<close>

definition createInstancedTrees ::
  "SeededRandom \<Rightarrow> (real \<Rightarrow> real \<Rightarrow> real) \<Rightarrow> nat \<Rightarrow> real \<Rightarrow> real \<Rightarrow>
     ((placedInstance list \<times> placedInstance list) \<times> SeededRandom) option" where
  "createInstancedTrees prng getHeight TREE_COUNT SPREAD MIN_DISTANCE_FROM_CENTER_TREES =
     (let (deciduousTemplate, prng) = createDeciduousTreeGeometry prng;
          (coniferousTemplate, prng) = createConiferousTreeGeometry prng;
          deciduousCount = TREE_COUNT div 2;
          coniferousCount = TREE_COUNT - deciduousCount
      in case placeTrees deciduousCount getHeight SPREAD MIN_DISTANCE_FROM_CENTER_TREES
                0.8 1.2 prng of
           None \<Rightarrow> None
         | Some (deciduous, prng) \<Rightarrow>
             (case placeTrees coniferousCount getHeight SPREAD
                     MIN_DISTANCE_FROM_CENTER_TREES 0.7 1.1 prng of
                None \<Rightarrow> None
              | Some (coniferous, prng) \<Rightarrow> Some ((deciduous, coniferous), prng)))"

text \<open>
  The Fisher-Yates shuffle of the type tags, \<open>for (i = length - 1; i > 0; i--)\<close>: the
  first argument is \<open>i\<close>.
\<close>

fun shuffleTypes :: "nat \<Rightarrow> nat list \<Rightarrow> SeededRandom \<Rightarrow> nat list \<times> SeededRandom" where
  "shuffleTypes 0 instanceTypes prng = (instanceTypes, prng)"
| "shuffleTypes (Suc k) instanceTypes prng =
     (let i = Suc k;
          (r, prng) = random prng;
          j = nat \<lfloor>r * (real i + 1)\<rfloor>;
          a = instanceTypes ! i;
          b = instanceTypes ! j
      in shuffleTypes k (instanceTypes[i := b, j := a]) prng)"

text \<open>
  The placement loop of \<open>createInstancedMushrooms\<close>, \<open>for (i = 0; i < MUSHROOM_COUNT; i++)\<close>,
  by the number of iterations left and the index \<open>i\<close>.
\<close>

fun placeMushrooms ::
  "nat \<Rightarrow> nat \<Rightarrow> nat list \<Rightarrow> (real \<Rightarrow> real \<Rightarrow> real) \<Rightarrow> real \<Rightarrow> real \<Rightarrow> SeededRandom \<Rightarrow>
     (placedInstance list \<times> SeededRandom) option" where
  "placeMushrooms 0 i instanceTypes getHeight SPREAD MIN_DISTANCE prng = Some ([], prng)"
| "placeMushrooms (Suc n) i instanceTypes getHeight SPREAD MIN_DISTANCE prng =
     (case mushroomPosition SPREAD MIN_DISTANCE prng of
        None \<Rightarrow> None
      | Some ((x, z), prng) \<Rightarrow>
          let terrainY = getHeight x z;
              (scaleVariation, prng) = randFloat prng 0.5 1.5;
              (r, prng) = random prng;
              mushroomType = (if i < length instanceTypes then Some (instanceTypes ! i) else None);
              dummy = \<lparr>inst_x = x, inst_y = terrainY, inst_z = z, inst_rotation = r * pi * 2,
                       inst_scale = scaleVariation, inst_type = mushroomType\<rparr>
          in (case placeMushrooms n (i + 1) instanceTypes getHeight SPREAD MIN_DISTANCE prng of
                None \<Rightarrow> None
              | Some (rest, prng) \<Rightarrow> Some (dummy # rest, prng)))"

definition createInstancedMushrooms ::
  "SeededRandom \<Rightarrow> (real \<Rightarrow> real \<Rightarrow> real) \<Rightarrow> nat \<Rightarrow> real \<Rightarrow> real \<Rightarrow>
     (placedInstance list \<times> SeededRandom) option" where
  "createInstancedMushrooms prng getHeight MUSHROOM_COUNT SPREAD
       MIN_DISTANCE_FROM_GATEWAY_CENTER =
     (let counts = mushroomCounts MUSHROOM_COUNT;
          instanceTypes = instanceTypes0 counts;
          (instanceTypes, prng) = shuffleTypes (length instanceTypes - 1) instanceTypes prng
      in placeMushrooms MUSHROOM_COUNT 0 instanceTypes getHeight SPREAD
           MIN_DISTANCE_FROM_GATEWAY_CENTER prng)"

section \<open>Properties of the generator\<close>

lemma random_fst_word: "\<exists>w :: 32 word. fst (random prng) = real (unat w) / 4294967296"
  unfolding random_def Let_def fst_conv by (rule exI, rule refl)

lemma unat_32_less: "real (unat (w :: 32 word)) < 4294967296"
proof -
  have "unat w < 2 ^ LENGTH(32)"
    by (rule unsigned_less)
  then have "unat w < 4294967296"
    by simp
  then have "real (unat w) < real 4294967296"
    by (rule less_imp_of_nat_less)
  then show ?thesis
    by simp
qed

lemma random_ge_0: "0 \<le> fst (random prng)"
proof -
  obtain w :: "32 word" where w: "fst (random prng) = real (unat w) / 4294967296"
    using random_fst_word by blast
  have "0 \<le> real (unat w)"
    by (rule of_nat_0_le_iff)
  then show ?thesis
    unfolding w by (rule divide_nonneg_pos) simp
qed

lemma random_less_1: "fst (random prng) < 1"
proof -
  obtain w :: "32 word" where w: "fst (random prng) = real (unat w) / 4294967296"
    using random_fst_word by blast
  have "real (unat w) / 4294967296 < 4294967296 / 4294967296"
    using unat_32_less [of w] by (rule divide_strict_right_mono) simp
  then show ?thesis
    unfolding w by simp
qed

lemma randFloat_fst: "fst (randFloat prng lo hi) = fst (random prng) * (hi - lo) + lo"
  by (simp add: randFloat_def randFloatWith_def split_beta)

lemma randFloat_snd: "snd (randFloat prng lo hi) = snd (random prng)"
  by (simp add: randFloat_def randFloatWith_def split_beta)

lemma randFloat_lower: "lo < hi \<Longrightarrow> lo \<le> fst (randFloat prng lo hi)"
  using random_ge_0 [of prng] by (simp add: randFloat_fst)

lemma randFloat_upper: "lo < hi \<Longrightarrow> fst (randFloat prng lo hi) < hi"
proof -
  assume lt: "lo < hi"
  have "fst (random prng) * (hi - lo) < 1 * (hi - lo)"
    using random_less_1 [of prng] lt by (intro mult_strict_right_mono) simp_all
  then show ?thesis
    by (simp add: randFloat_fst)
qed

text \<open>
  Claim C1. Two instances constructed with the same explicit seed and issued the same
  sequence of \<open>random\<close>/\<open>randFloat\<close>/\<open>randInt\<close> calls return the same outputs at every
  step, and end in the same state, whatever the rounding of the arithmetic. The two runs
  may read different clocks: with an explicit seed the constructor does not use the clock.
\<close>

theorem seeded_stream_deterministic:
  "issue rnd (SeededRandom_new (Some s) now1) calls =
   issue rnd (SeededRandom_new (Some s) now2) calls"
  by (simp add: SeededRandom_new_def)

text \<open>
  In exact arithmetic \<open>randFloat(a, b)\<close> stays in \<open>[a, b)\<close>, as its documentation says.
\<close>

lemma randFloat_exact_range:
  "a < b \<Longrightarrow> a \<le> fst (randFloat prng a b) \<and> fst (randFloat prng a b) < b"
  using randFloat_lower randFloat_upper by blast

lemma rd_difference: "rd (1048576 + 1 / 8192 - 1048576) = 1 / 8192"
  by (simp add: rd_def exponent2_def roundHalfEven_def pow2_def Let_def bitlen.simps)

lemma rd_product: "rd (4294965030 / 4294967296 * (1 / 8192)) = 4294965030 / 4294967296 * (1 / 8192)"
  by (simp add: rd_def exponent2_def roundHalfEven_def pow2_def Let_def bitlen.simps)

lemma rd_sum: "rd (4294965030 / 4294967296 * (1 / 8192) + 1048576) = 1048576 + 1 / 8192"
  by (simp add: rd_def exponent2_def roundHalfEven_def pow2_def Let_def bitlen.simps)

lemma draw_1600082:
  "random (SeededRandom_new (Some 1600082) 0) =
     (4294965030 / 4294967296, \<lparr>seed = 1833165895\<rparr>)"
  by (simp add: random_def fl_def ToInt32_def Let_def SeededRandom_new_def)

text \<open>
  Claim C9. Every call to \<open>random()\<close> returns a value in \<open>[0, 1)\<close>, and for \<open>a < b\<close>
  every call to \<open>randFloat(a, b)\<close> returns a value in \<open>[a, b)\<close>. The first half holds
  (\<open>random_ge_0\<close>, \<open>random_less_1\<close>). The second half fails as the code runs: on a
  generator constructed with seed 1600082, \<open>random()\<close> is \<open>4294965030 / 2^32\<close>, and with
  \<open>a = 2^20\<close> and \<open>b = 2^20 + 2^(-13)\<close> the exact value \<open>a + 4294965030 * 2^(-45)\<close> lies less
  than half a unit in the last place below \<open>b\<close>, so the addition rounds to \<open>b\<close> and
  \<open>randFloat(a, b)\<close> returns \<open>b\<close> itself, while \<open>random()\<close> is in \<open>[0, 1)\<close>.
\<close>

theorem randFloat_returns_max:
  "(1048576 :: real) < 1048576 + 1 / 8192 \<and>
   0 \<le> fst (random (SeededRandom_new (Some 1600082) 0)) \<and>
   fst (random (SeededRandom_new (Some 1600082) 0)) < 1 \<and>
   fst (randFloatWith rd (SeededRandom_new (Some 1600082) 0) 1048576 (1048576 + 1 / 8192))
     = 1048576 + 1 / 8192"
proof -
  have "fst (randFloatWith rd (SeededRandom_new (Some 1600082) 0) 1048576 (1048576 + 1 / 8192))
          = rd (rd (4294965030 / 4294967296 * rd (1048576 + 1 / 8192 - 1048576)) + 1048576)"
    by (simp only: randFloatWith_def draw_1600082 Let_def prod.case fst_conv)
  also have "\<dots> = 1048576 + 1 / 8192"
    by (simp only: rd_difference rd_product rd_sum)
  finally show ?thesis
    using random_ge_0 random_less_1 by simp
qed

section \<open>Properties of the rounding\<close>

lemma fl_small: "\<bar>z\<bar> < 2 ^ 53 \<Longrightarrow> fl z = z"
  by (simp add: fl_def)

lemma bitlen_bounds: "0 < z \<Longrightarrow> 2 ^ (bitlen z - 1) \<le> z \<and> z < 2 ^ bitlen z"
proof (induction z rule: bitlen.induct)
  case (1 z)
  show ?case
  proof (cases "z div 2 \<le> 0")
    case True
    with 1(2) have "z = 1" by linarith
    then show ?thesis
      by (simp add: bitlen.simps [of 1] bitlen.simps [of 0])
  next
    case False
    then have pos: "0 < z div 2" by simp
    from 1(2) have nz: "\<not> z \<le> 0" by simp
    from 1(1) [OF nz pos] have IH: "2 ^ (bitlen (z div 2) - 1) \<le> z div 2" "z div 2 < 2 ^ bitlen (z div 2)"
      by simp_all
    have b: "bitlen z = Suc (bitlen (z div 2))"
      using nz by (subst bitlen.simps) simp
    have bp: "0 < bitlen (z div 2)"
      using pos by (subst bitlen.simps) simp
    then have e: "(2::int) ^ bitlen (z div 2) = 2 * 2 ^ (bitlen (z div 2) - 1)"
      by (cases "bitlen (z div 2)") simp_all
    from IH e show ?thesis
      unfolding b by (simp, linarith)
  qed
qed

text \<open>
  Beyond \<open>2^53\<close> the rounded value is \<open>\<plusminus> q' * 2^e\<close> with \<open>e \<ge> 1\<close> and \<open>q' \<ge> 2^52\<close>, at most
  half a unit \<open>2^e\<close> away from the exact one.
\<close>

lemma fl_big:
  assumes big: "2 ^ 53 \<le> \<bar>z\<bar>"
  obtains e q' where "fl z = sgn z * (q' * 2 ^ e)" and "1 \<le> e" and "2 ^ (52 + e) \<le> \<bar>z\<bar>"
    and "\<bar>z\<bar> < 2 ^ (53 + e)" and "2 ^ 52 \<le> q'" and "\<bar>q' * 2 ^ e - \<bar>z\<bar>\<bar> \<le> 2 ^ (e - 1)"
proof -
  define L where "L = bitlen \<bar>z\<bar>"
  define e where "e = L - 53"
  define q where "q = \<bar>z\<bar> div 2 ^ e"
  define r where "r = \<bar>z\<bar> mod 2 ^ e"
  define h :: int where "h = 2 ^ (e - 1)"
  define q' where "q' = (if r < h \<or> (r = h \<and> even q) then q else q + 1)"
  have pos: "0 < \<bar>z\<bar>"
    using big by (smt (verit) zero_less_power)
  from bitlen_bounds [OF pos] have lo: "2 ^ (L - 1) \<le> \<bar>z\<bar>" and hi: "\<bar>z\<bar> < 2 ^ L"
    by (simp_all add: L_def)
  from big hi have "(2::int) ^ 53 < 2 ^ L"
    by linarith
  then have L: "53 < L"
    by (rule power_less_imp_less_exp [rotated]) simp
  then have e1: "1 \<le> e" and Le: "L = 53 + e" "L - 1 = 52 + e"
    by (simp_all add: e_def)
  have two_e: "(2::int) ^ e = 2 * h"
    using e1 by (cases e) (simp_all add: h_def)
  have hpos: "0 < h"
    by (simp add: h_def)
  have zqr: "\<bar>z\<bar> = q * 2 ^ e + r"
    unfolding q_def r_def by (rule div_mult_mod_eq [symmetric])
  have r0: "0 \<le> r" and r1: "r < 2 ^ e"
    by (simp_all add: r_def)
  have "(2::int) ^ 52 = 2 ^ (52 + e) div 2 ^ e"
    by (simp add: power_add)
  also have "\<dots> \<le> q"
    unfolding q_def using lo Le by (intro zdiv_mono1) simp_all
  finally have q52: "2 ^ 52 \<le> q" .
  have qq: "q \<le> q'"
    by (simp add: q'_def)
  have err: "\<bar>q' * 2 ^ e - \<bar>z\<bar>\<bar> \<le> h"
  proof (cases "r < h \<or> (r = h \<and> even q)")
    case True
    then have "q' = q" by (simp add: q'_def)
    then have "q' * 2 ^ e - \<bar>z\<bar> = - r"
      using zqr by simp
    with True r0 show ?thesis by auto
  next
    case False
    then have "q' = q + 1" by (simp add: q'_def)
    then have "q' * 2 ^ e - \<bar>z\<bar> = 2 * h - r"
      using zqr two_e by (simp add: algebra_simps)
    with False r1 two_e show ?thesis by auto
  qed
  have nb: "\<not> \<bar>z\<bar> < 2 ^ 53"
    using big by simp
  have f: "fl z = sgn z * (q' * 2 ^ e)"
    unfolding fl_def using nb
    by (simp add: Let_def q'_def q_def r_def h_def e_def L_def)
  show thesis
  proof (rule that [of q' e])
    show "fl z = sgn z * (q' * 2 ^ e)" by (rule f)
    show "1 \<le> e" by (rule e1)
    show "2 ^ (52 + e) \<le> \<bar>z\<bar>" using lo Le by simp
    show "\<bar>z\<bar> < 2 ^ (53 + e)" using hi Le by simp
    show "2 ^ 52 \<le> q'" using q52 qq by linarith
    show "\<bar>q' * 2 ^ e - \<bar>z\<bar>\<bar> \<le> 2 ^ (e - 1)" using err by (simp add: h_def)
  qed
qed

lemma fl_even: "2 ^ 53 \<le> \<bar>z\<bar> \<Longrightarrow> even (fl z)"
proof -
  assume "2 ^ 53 \<le> \<bar>z\<bar>"
  then obtain e q' where f: "fl z = sgn z * (q' * 2 ^ e)" and e: "1 \<le> e"
    by (rule fl_big)
  from e have "even ((2::int) ^ e)"
    by simp
  then show ?thesis
    unfolding f by simp
qed

lemma fl_abs_ge:
  assumes "2 ^ k \<le> \<bar>z\<bar>" and "53 \<le> k"
  shows "2 ^ k \<le> \<bar>fl z\<bar>"
proof -
  have "(2::int) ^ 53 \<le> 2 ^ k"
    using assms(2) by (rule power_increasing) simp
  with assms(1) have big: "2 ^ 53 \<le> \<bar>z\<bar>"
    by linarith
  then obtain e q' where f: "fl z = sgn z * (q' * 2 ^ e)" and hi: "\<bar>z\<bar> < 2 ^ (53 + e)"
    and q: "2 ^ 52 \<le> q'"
    by (rule fl_big)
  from assms(1) hi have "(2::int) ^ k < 2 ^ (53 + e)"
    by linarith
  then have "k < 53 + e"
    by (rule power_less_imp_less_exp [rotated]) simp
  then have "k \<le> 52 + e"
    by simp
  then have "(2::int) ^ k \<le> 2 ^ (52 + e)"
    by (rule power_increasing) simp
  also have "\<dots> = 2 ^ 52 * 2 ^ e"
    by (simp add: power_add)
  also have "\<dots> \<le> q' * 2 ^ e"
    using q by (intro mult_right_mono) simp_all
  finally have "2 ^ k \<le> q' * 2 ^ e" .
  moreover have "z \<noteq> 0"
    using big by auto
  moreover have "0 \<le> q'"
    using q by simp
  ultimately show ?thesis
    unfolding f by (simp add: abs_mult abs_sgn_eq)
qed

lemma fl_sgn: "2 ^ 53 \<le> \<bar>z\<bar> \<Longrightarrow> sgn (fl z) = sgn z"
proof -
  assume big: "2 ^ 53 \<le> \<bar>z\<bar>"
  then obtain e q' where f: "fl z = sgn z * (q' * 2 ^ e)" and q: "2 ^ 52 \<le> q'"
    by (rule fl_big)
  have "0 < q' * 2 ^ e"
    using q by (intro mult_pos_pos) simp_all
  then have s: "sgn (q' * 2 ^ e) = 1"
    by (rule sgn_pos)
  have "sgn (fl z) = sgn (sgn z) * sgn (q' * 2 ^ e)"
    unfolding f by (rule sgn_mult)
  then show ?thesis
    by (simp add: s)
qed

lemma fl_err_54:
  assumes "2 ^ 53 \<le> \<bar>z\<bar>" and "\<bar>z\<bar> < 2 ^ 54"
  shows "\<bar>fl z - z\<bar> \<le> 1"
proof -
  from assms(1) obtain e q' where f: "fl z = sgn z * (q' * 2 ^ e)" and e: "1 \<le> e"
    and lo: "2 ^ (52 + e) \<le> \<bar>z\<bar>" and err: "\<bar>q' * 2 ^ e - \<bar>z\<bar>\<bar> \<le> 2 ^ (e - 1)"
    by (rule fl_big)
  from lo assms(2) have "(2::int) ^ (52 + e) < 2 ^ 54"
    by linarith
  then have "52 + e < 54"
    by (rule power_less_imp_less_exp [rotated]) simp
  with e have e1: "e = 1"
    by simp
  have "fl z - z = sgn z * (q' * 2 ^ e - \<bar>z\<bar>)"
    unfolding f by (simp add: algebra_simps mult_sgn_abs abs_mult_sgn)
  then have "\<bar>fl z - z\<bar> \<le> \<bar>q' * 2 ^ e - \<bar>z\<bar>\<bar>"
    by (simp add: abs_mult abs_sgn_eq)
  with err e1 show ?thesis
    by simp
qed

lemma fl_ge:
  assumes "0 \<le> X" and "X < 2 ^ 53" and "X \<le> z"
  shows "X \<le> fl z"
proof (cases "\<bar>z\<bar> < 2 ^ 53")
  case True
  with assms(3) show ?thesis
    by (simp add: fl_small)
next
  case False
  then have big: "2 ^ 53 \<le> \<bar>z\<bar>"
    by simp
  from assms have "0 \<le> z"
    by simp
  with big have "sgn z = 1"
    by (smt (verit) sgn_pos zero_less_power)
  with fl_sgn [OF big] have "0 < fl z"
    by (simp add: sgn_1_pos)
  with fl_abs_ge [OF big] assms(2) show ?thesis
    by simp
qed


text \<open>
  On integers the rounding of reals \<open>rd\<close> is the rounding of integers \<open>fl\<close>: the two
  definitions describe the same doubles.
\<close>

lemma bitlen_le_53: "0 < z \<Longrightarrow> z < 2 ^ 53 \<Longrightarrow> bitlen z \<le> 53"
proof -
  assume p: "0 < z" and l: "z < 2 ^ 53"
  from bitlen_bounds [OF p] l have "(2::int) ^ (bitlen z - 1) < 2 ^ 53"
    by linarith
  then have "bitlen z - 1 < 53"
    by (rule power_less_imp_less_exp [rotated]) simp
  then show ?thesis
    by simp
qed

lemma roundHalfEven_of_int [simp]: "roundHalfEven (of_int n) = n"
  by (simp add: roundHalfEven_def)

lemma rd_of_int: "rd (of_int z) = of_int (fl z)"
proof (cases "z = 0")
  case True
  then show ?thesis
    by (simp add: rd_def fl_def)
next
  case nz: False
  then have pos: "0 < \<bar>z\<bar>"
    by simp
  then have "1 \<le> \<bar>z\<bar>"
    by linarith
  then have "(1::real) \<le> of_int \<bar>z\<bar>"
    by (simp only: of_int_1_le_iff)
  then have one: "(1::real) \<le> \<bar>of_int z\<bar>"
    by simp
  define L where "L = bitlen \<bar>z\<bar>"
  have E: "exponent2 \<bar>of_int z\<bar> = int L - 1"
    using one by (simp add: exponent2_def L_def flip: of_int_abs)
  have Lpos: "0 < L"
    unfolding L_def using pos by (subst bitlen.simps) simp
  have e: "max (exponent2 \<bar>of_int z\<bar> - 52) (- 1074) = int L - 53"
    unfolding E using Lpos by simp
  show ?thesis
  proof (cases "\<bar>z\<bar> < 2 ^ 53")
    case True
    from bitlen_le_53 [OF pos True] have le: "L \<le> 53"
      by (simp add: L_def)
    then have p: "pow2 (int L - 53) = 1 / 2 ^ (53 - L)"
      by (auto simp: pow2_def nat_diff_distrib')
    have "\<bar>real_of_int z\<bar> / pow2 (int L - 53) = of_int (\<bar>z\<bar> * 2 ^ (53 - L))"
      unfolding p by simp
    then have "roundHalfEven (\<bar>real_of_int z\<bar> / pow2 (int L - 53)) = \<bar>z\<bar> * 2 ^ (53 - L)"
      by (simp only: roundHalfEven_of_int)
    then have "rd (of_int z) = sgn (real_of_int z) * (of_int (\<bar>z\<bar> * 2 ^ (53 - L)) * (1 / 2 ^ (53 - L)))"
      using nz by (simp add: rd_def e Let_def p)
    also have "\<dots> = sgn (real_of_int z) * \<bar>real_of_int z\<bar>"
      by simp
    also have "\<dots> = of_int z"
      by (simp add: mult_sgn_abs)
    finally show ?thesis
      using True by (simp add: fl_small)
  next
    case False
    then have big: "2 ^ 53 \<le> \<bar>z\<bar>"
      by simp
    from bitlen_bounds [OF pos] big have "(2::int) ^ 53 < 2 ^ L"
      unfolding L_def by linarith
    then have L53: "53 < L"
      by (rule power_less_imp_less_exp [rotated]) simp
    define k where "k = L - 53"
    have ik: "int L - 53 = int k" and k1: "1 \<le> k"
      using L53 by (simp_all add: k_def)
    have p: "pow2 (int L - 53) = 2 ^ k"
      unfolding ik by (simp add: pow2_def)
    define q where "q = \<bar>z\<bar> div 2 ^ k"
    define r where "r = \<bar>z\<bar> mod 2 ^ k"
    have zqr: "\<bar>z\<bar> = q * 2 ^ k + r"
      unfolding q_def r_def by (rule div_mult_mod_eq [symmetric])
    have fl1: "\<lfloor>\<bar>real_of_int z\<bar> / 2 ^ k\<rfloor> = q"
    proof -
      have "\<bar>real_of_int z\<bar> / 2 ^ k = real_of_int \<bar>z\<bar> / real_of_int (2 ^ k)"
        by simp
      then show ?thesis
        unfolding q_def by (simp only: floor_divide_of_int_eq)
    qed
    have d: "\<bar>real_of_int z\<bar> / 2 ^ k - of_int q = of_int r / 2 ^ k"
    proof -
      have "\<bar>real_of_int z\<bar> = of_int q * 2 ^ k + of_int r"
        using zqr by (metis of_int_abs of_int_add of_int_mult of_int_numeral of_int_power)
      then show ?thesis
        by (simp add: field_simps)
    qed
    have twok: "(2::real) ^ k = 2 * 2 ^ (k - 1)" and twoki: "(2::int) ^ k = 2 * 2 ^ (k - 1)"
      using k1 by (cases k; simp)+
    have c1: "(of_int r / 2 ^ k < (1::real) / 2) = (r < 2 ^ (k - 1))"
    proof -
      have "(of_int r / 2 ^ k < (1::real) / 2) = (real_of_int r < 2 ^ (k - 1))"
        unfolding twok by (simp add: field_simps)
      also have "\<dots> = (r < 2 ^ (k - 1))"
        by (metis of_int_less_iff of_int_numeral of_int_power)
      finally show ?thesis .
    qed
    have c2: "(of_int r / 2 ^ k = (1::real) / 2) = (r = 2 ^ (k - 1))"
    proof -
      have "(of_int r / 2 ^ k = (1::real) / 2) = (real_of_int r = 2 ^ (k - 1))"
        unfolding twok by (auto simp: field_simps)
      also have "\<dots> = (r = 2 ^ (k - 1))"
        by (metis of_int_eq_iff of_int_numeral of_int_power)
      finally show ?thesis .
    qed
    have rhe: "roundHalfEven (\<bar>real_of_int z\<bar> / 2 ^ k) =
        (if r < 2 ^ (k - 1) \<or> (r = 2 ^ (k - 1) \<and> even q) then q else q + 1)"
      by (simp only: roundHalfEven_def Let_def fl1 d c1 c2)
    have f: "fl z = sgn z * ((if r < 2 ^ (k - 1) \<or> (r = 2 ^ (k - 1) \<and> even q) then q else q + 1) * 2 ^ k)"
      using False by (simp add: fl_def Let_def q_def r_def k_def L_def)
    have "rd (of_int z) = sgn (real_of_int z) *
        (of_int (if r < 2 ^ (k - 1) \<or> (r = 2 ^ (k - 1) \<and> even q) then q else q + 1) * 2 ^ k)"
      using nz by (simp only: rd_def e Let_def p rhe of_int_eq_0_iff if_False)
    also have "\<dots> = of_int (fl z)"
      unfolding f by (simp add: sgn_if)
    finally show ?thesis .
  qed
qed

section \<open>Properties of the split of the count\<close>

lemma mushroomCounts_eq:
  "mushroomCounts N =
     [N div 3 + (if 0 < N mod 3 then 1 else 0), N div 3 + (if 1 < N mod 3 then 1 else 0), N div 3]"
proof -
  have "[0 ..< 3] = [0, 1, 2::nat]"
    by (simp add: upt_rec)
  then show ?thesis
    by (simp add: mushroomCounts_def createMushroomGeometries_def Let_def)
qed

lemma length_instanceTypes0_3: "length (instanceTypes0 [a, b, c]) = a + b + c"
proof -
  have "[0 ..< 3] = [0, 1, 2::nat]"
    by (simp add: upt_rec)
  then show ?thesis
    by (simp add: instanceTypes0_def)
qed

text \<open>
  Claim C3. For every total \<open>N\<close> the three per-variety counts are \<open>N div 3\<close> plus one for
  each index below \<open>N mod 3\<close>; they sum to \<open>N\<close>, the extra instances go to the earliest
  indices, the list of type tags holds exactly \<open>N\<close> entries, 150 gives 50/50/50 and 151
  gives 51/50/50.
\<close>

theorem mushroomCounts_conserve:
  "sum_list (mushroomCounts N) = N \<and>
   length (mushroomCounts N) = 3 \<and>
   (\<forall>i < 3. mushroomCounts N ! i = N div 3 + (if i < N mod 3 then 1 else 0)) \<and>
   (\<forall>i j. i < j \<and> j < 3 \<longrightarrow>
      mushroomCounts N ! j \<le> mushroomCounts N ! i \<and> mushroomCounts N ! i \<le> mushroomCounts N ! j + 1) \<and>
   length (instanceTypes0 (mushroomCounts N)) = N \<and>
   mushroomCounts 150 = [50, 50, 50] \<and> mushroomCounts 151 = [51, 50, 50]"
proof -
  have lt3: "i < 3 \<longleftrightarrow> i = 0 \<or> i = 1 \<or> i = 2" for i :: nat
    by auto
  have s: "sum_list (mushroomCounts N) = N"
    unfolding mushroomCounts_eq by simp presburger
  have l: "length (mushroomCounts N) = 3"
    unfolding mushroomCounts_eq by simp
  have n: "\<forall>i < 3. mushroomCounts N ! i = N div 3 + (if i < N mod 3 then 1 else 0)"
    unfolding mushroomCounts_eq lt3 by auto
  have m: "\<forall>i j. i < j \<and> j < 3 \<longrightarrow>
      mushroomCounts N ! j \<le> mushroomCounts N ! i \<and> mushroomCounts N ! i \<le> mushroomCounts N ! j + 1"
  proof (intro allI impI)
    fix i j :: nat
    assume "i < j \<and> j < 3"
    then consider "i = 0 \<and> j = 1" | "i = 0 \<and> j = 2" | "i = 1 \<and> j = 2"
      by linarith
    then show "mushroomCounts N ! j \<le> mushroomCounts N ! i \<and>
               mushroomCounts N ! i \<le> mushroomCounts N ! j + 1"
      by cases (auto simp: mushroomCounts_eq)
  qed
  have t: "length (instanceTypes0 (mushroomCounts N)) = N"
    unfolding mushroomCounts_eq length_instanceTypes0_3 by simp presburger
  have e: "mushroomCounts 150 = [50, 50, 50]" "mushroomCounts 151 = [51, 50, 50]"
    unfolding mushroomCounts_eq by simp_all
  from s l n m t e show ?thesis
    by blast
qed

theorem mushroomCounts_conserve_witness:
  "(1::nat) < 3 \<and> (1::nat) < 2 \<and> (2::nat) < 3 \<and> sum_list (mushroomCounts 152) = 152 \<and>
   mushroomCounts 152 ! 1 = 51 \<and> mushroomCounts 152 ! 2 \<le> mushroomCounts 152 ! 1"
  using mushroomCounts_conserve [of 152] by simp

section \<open>Properties of the day/night cycle\<close>

lemma tick_day_roll:
  assumes "scene_ready w" "isDaytime w" "1 \<le> dayTimeProgress w + delta / 60"
  shows "\<exists>w'. animate delta w = Inr w' \<and> \<not> isDaytime w' \<and> dayTimeProgress w' = 0 \<and>
     nightTimeProgress w' = 0 \<and> snapshot_applied nightSettings w' \<and>
     map_option mesh_visible (sunMesh w') = Some False \<and>
     map_option mesh_visible (moonMesh w') = Some True"
  using assms
  by (auto simp: animate_def scene_ready_def applySceneState_def updateCelestialBodyPosition_def
      Let_def DAY_CYCLE_DURATION_def LIGHT_ORBIT_RADIUS_def snapshot_applied_def)

lemma tick_night_roll:
  assumes "scene_ready w" "\<not> isDaytime w" "1 \<le> nightTimeProgress w + delta / 45"
  shows "\<exists>w'. animate delta w = Inr w' \<and> isDaytime w' \<and> dayTimeProgress w' = 0 \<and>
     nightTimeProgress w' = 0 \<and> snapshot_applied daySettings w' \<and>
     map_option mesh_visible (moonMesh w') = Some False \<and>
     map_option mesh_visible (sunMesh w') = Some True"
  using assms
  by (auto simp: animate_def scene_ready_def applySceneState_def updateCelestialBodyPosition_def
      Let_def NIGHT_CYCLE_DURATION_def LIGHT_ORBIT_RADIUS_def snapshot_applied_def)

lemma tick_day_stay:
  assumes "scene_ready w" "isDaytime w" "\<not> 1 \<le> dayTimeProgress w + delta / 60"
  shows "\<exists>w'. animate delta w = Inr w' \<and> isDaytime w' \<and>
     dayTimeProgress w' = dayTimeProgress w + delta / 60 \<and>
     nightTimeProgress w' = nightTimeProgress w"
  using assms
  by (auto simp: animate_def scene_ready_def updateCelestialBodyPosition_def
      Let_def DAY_CYCLE_DURATION_def)

lemma tick_night_stay:
  assumes "scene_ready w" "\<not> isDaytime w" "\<not> 1 \<le> nightTimeProgress w + delta / 45"
  shows "\<exists>w'. animate delta w = Inr w' \<and> \<not> isDaytime w' \<and>
     nightTimeProgress w' = nightTimeProgress w + delta / 45 \<and>
     dayTimeProgress w' = dayTimeProgress w"
  using assms
  by (auto simp: animate_def scene_ready_def updateCelestialBodyPosition_def
      Let_def NIGHT_CYCLE_DURATION_def)

text \<open>
  Claim C4. A tick of an initialised scene whose progress values are in \<open>[0, 1)\<close>, with a
  time step \<open>delta \<ge> 0\<close>, returns a state whose progress values are again in \<open>[0, 1)\<close>.
  When the active progress plus \<open>delta / duration\<close> reaches or exceeds 1, the phase
  flips, both progress values are exactly 0 (the overshoot is dropped), the settings of
  the new phase are applied to background, fog, lights and materials, the body of the old
  phase is hidden and the body of the new phase is visible, all in that call. Otherwise
  the phase stays and the active progress has advanced by \<open>delta / duration\<close>.
\<close>

theorem day_night_tick:
  assumes "scene_ready w" and "cycle_inv w" and "0 \<le> delta"
  shows "\<exists>w'. animate delta w = Inr w' \<and> cycle_inv w' \<and>
     0 \<le> activeProgress w' \<and> activeProgress w' < 1 \<and>
     (if 1 \<le> activeProgress w + delta / activeDuration w
      then isDaytime w' = (\<not> isDaytime w) \<and> activeProgress w' = 0 \<and>
           dayTimeProgress w' = 0 \<and> nightTimeProgress w' = 0 \<and>
           snapshot_applied (if isDaytime w' then daySettings else nightSettings) w' \<and>
           map_option mesh_visible (inactiveBody w') = Some False \<and>
           map_option mesh_visible (activeBody w') = Some True
      else isDaytime w' = isDaytime w \<and>
           activeProgress w' = activeProgress w + delta / activeDuration w)"
proof (cases "isDaytime w")
  case day: True
  show ?thesis
  proof (cases "1 \<le> dayTimeProgress w + delta / 60")
    case True
    from tick_day_roll [OF assms(1) day True] obtain w' where
      "animate delta w = Inr w'" "\<not> isDaytime w'" "dayTimeProgress w' = 0"
      "nightTimeProgress w' = 0" "snapshot_applied nightSettings w'"
      "map_option mesh_visible (sunMesh w') = Some False"
      "map_option mesh_visible (moonMesh w') = Some True"
      by blast
    with day True show ?thesis
      by (simp add: cycle_inv_def activeProgress_def activeDuration_def activeBody_def
          inactiveBody_def DAY_CYCLE_DURATION_def)
  next
    case False
    from tick_day_stay [OF assms(1) day False] obtain w' where
      "animate delta w = Inr w'" "isDaytime w'"
      "dayTimeProgress w' = dayTimeProgress w + delta / 60"
      "nightTimeProgress w' = nightTimeProgress w"
      by blast
    with day False assms(2,3) show ?thesis
      by (simp add: cycle_inv_def activeProgress_def activeDuration_def DAY_CYCLE_DURATION_def)
  qed
next
  case night: False
  show ?thesis
  proof (cases "1 \<le> nightTimeProgress w + delta / 45")
    case True
    from tick_night_roll [OF assms(1) night True] obtain w' where
      "animate delta w = Inr w'" "isDaytime w'" "dayTimeProgress w' = 0"
      "nightTimeProgress w' = 0" "snapshot_applied daySettings w'"
      "map_option mesh_visible (moonMesh w') = Some False"
      "map_option mesh_visible (sunMesh w') = Some True"
      by blast
    with night True show ?thesis
      by (simp add: cycle_inv_def activeProgress_def activeDuration_def activeBody_def
          inactiveBody_def NIGHT_CYCLE_DURATION_def)
  next
    case False
    from tick_night_stay [OF assms(1) night False] obtain w' where
      "animate delta w = Inr w'" "\<not> isDaytime w'"
      "nightTimeProgress w' = nightTimeProgress w + delta / 45"
      "dayTimeProgress w' = dayTimeProgress w"
      by blast
    with night False assms(2,3) show ?thesis
      by (simp add: cycle_inv_def activeProgress_def activeDuration_def NIGHT_CYCLE_DURATION_def)
  qed
qed

text \<open>
  The witness is the spec's example: day progress 0.98 and a step of 3 seconds, which is
  0.05 of the day's 60 seconds. The tick ends in the night phase with progress 0.
\<close>

theorem day_night_tick_witness:
  "scene_ready day98 \<and> cycle_inv day98 \<and> (0::real) \<le> 3 \<and>
   1 \<le> activeProgress day98 + 3 / activeDuration day98 \<and>
   (\<exists>w'. animate 3 day98 = Inr w' \<and> \<not> isDaytime w' \<and> nightTimeProgress w' = 0 \<and>
         dayTimeProgress w' = 0 \<and> snapshot_applied nightSettings w' \<and>
         map_option mesh_visible (sunMesh w') = Some False \<and>
         map_option mesh_visible (moonMesh w') = Some True)"
proof -
  have r: "scene_ready day98"
    by (simp add: scene_ready_def day98_def)
  have i: "cycle_inv day98"
    by (simp add: cycle_inv_def day98_def)
  have d: "(0::real) \<le> 3"
    by simp
  have o: "1 \<le> activeProgress day98 + 3 / activeDuration day98" "isDaytime day98"
    by (simp_all add: activeProgress_def activeDuration_def day98_def DAY_CYCLE_DURATION_def)
  from day_night_tick [OF r i d] o have
    "\<exists>w'. animate 3 day98 = Inr w' \<and> \<not> isDaytime w' \<and> nightTimeProgress w' = 0 \<and>
         dayTimeProgress w' = 0 \<and> snapshot_applied nightSettings w' \<and>
         map_option mesh_visible (sunMesh w') = Some False \<and>
         map_option mesh_visible (moonMesh w') = Some True"
    by (auto simp: activeBody_def inactiveBody_def)
  with r i d o show ?thesis
    by blast
qed

section \<open>Properties of the lattice hash\<close>

text \<open>\<open>n & 0x7fffffff\<close> is the residue of \<open>n\<close> modulo \<open>2^31\<close>.\<close>

lemma sint_masked: "sint (ToInt32 v AND 0x7fffffff) = v mod 2 ^ 31"
proof -
  have m: "(0x7fffffff :: 32 word) = mask 31"
    by (simp add: mask_eq_exp_minus_1)
  have w: "ToInt32 v AND 0x7fffffff = take_bit 31 (word_of_int v :: 32 word)"
    unfolding m by (simp add: ToInt32_def take_bit_eq_mask)
  have u: "uint (take_bit 31 (word_of_int v :: 32 word)) = take_bit 31 v"
    by (simp add: unsigned_take_bit_eq uint_word_of_int_eq)
  have "sint (take_bit 31 (word_of_int v :: 32 word)) = signed_take_bit 31 (take_bit 31 v)"
    by (simp add: sint_uint u)
  also have "\<dots> = take_bit 31 (take_bit 31 v)"
    by (rule signed_take_bit_eq_if_positive) (simp add: bit_take_bit_iff)
  also have "\<dots> = v mod 2 ^ 31"
    by (simp add: take_bit_eq_mod)
  finally show ?thesis
    unfolding w .
qed


text \<open>
  The hash returns a value below \<open>-1\<close> only if the masked integer is \<open>2^31 - 1\<close>, for which
  the double before the mask must be odd. From \<open>\<bar>n\<bar> = 8304\<close> on, the product exceeds
  \<open>2^53 + 1376312589\<close> in absolute value and the rounded sum is even. Up to \<open>\<bar>n\<bar> = 8303\<close>
  the arithmetic is exact, and the cubic is congruent to \<open>-1\<close> modulo \<open>2^31\<close> only for
  \<open>n\<close> congruent to 433775378.
\<close>

lemma fl_far:
  assumes "2 ^ 53 + 1376312589 + 2 \<le> \<bar>z\<bar>"
  shows "2 ^ 53 \<le> \<bar>fl z + 1376312589\<bar>"
proof -
  from assms have big: "2 ^ 53 \<le> \<bar>z\<bar>"
    by simp
  note s = fl_sgn [OF big] and g = fl_abs_ge [OF big, of ]
  show ?thesis
  proof (cases "0 < z")
    case True
    then have "0 < fl z"
      using s by (simp add: sgn_1_pos)
    with fl_abs_ge [OF big] show ?thesis
      by simp
  next
    case False
    with big have neg: "z < 0"
      by (smt (verit) zero_less_power)
    then have fneg: "fl z < 0"
      using s by (simp add: sgn_1_neg)
    show ?thesis
    proof (cases "\<bar>z\<bar> < 2 ^ 54")
      case True
      from fl_err_54 [OF big True] have "fl z \<le> z + 1"
        by simp
      with assms neg show ?thesis
        by simp
    next
      case False
      then have "2 ^ 54 \<le> \<bar>z\<bar>"
        by simp
      from fl_abs_ge [OF this] fneg show ?thesis
        by simp
    qed
  qed
qed

lemma hash_big_even:
  assumes "8304 \<le> \<bar>n\<bar>"
  shows "even (fl (fl (n * fl (fl (fl (n * n) * 15731) + 789221)) + 1376312589))"
proof -
  have "8304 * 8304 \<le> \<bar>n\<bar> * \<bar>n\<bar>"
    using assms by (intro mult_mono) simp_all
  then have nn: "68956416 \<le> n * n"
    by (simp add: abs_mult_self_eq)
  have a: "68956416 \<le> fl (n * n)"
    by (rule fl_ge [OF _ _ nn]) simp_all
  then have "1084753380096 \<le> fl (n * n) * 15731"
    by simp
  then have b: "1084753380096 \<le> fl (fl (n * n) * 15731)"
    by (rule fl_ge [rotated 2]) simp_all
  then have "1084754169317 \<le> fl (fl (n * n) * 15731) + 789221"
    by simp
  then have d: "1084754169317 \<le> fl (fl (fl (n * n) * 15731) + 789221)"
    by (rule fl_ge [rotated 2]) simp_all
  let ?d = "fl (fl (fl (n * n) * 15731) + 789221)"
  have "8304 * 1084754169317 \<le> \<bar>n\<bar> * ?d"
    using assms d by (intro mult_mono) simp_all
  moreover have "\<bar>n * ?d\<bar> = \<bar>n\<bar> * ?d"
    using d by (simp add: abs_mult)
  ultimately have "2 ^ 53 + 1376312589 + 2 \<le> \<bar>n * ?d\<bar>"
    by simp
  then have "2 ^ 53 \<le> \<bar>fl (n * ?d) + 1376312589\<bar>"
    by (rule fl_far)
  then show ?thesis
    by (rule fl_even)
qed

lemma hash_small_exact:
  assumes "\<bar>n\<bar> \<le> 8303"
  shows "fl (fl (n * fl (fl (fl (n * n) * 15731) + 789221)) + 1376312589) =
         n * (n * n * 15731 + 789221) + 1376312589"
proof -
  have "\<bar>n\<bar> * \<bar>n\<bar> \<le> 8303 * 8303"
    using assms by (intro mult_mono) simp_all
  then have nn: "n * n \<le> 68939809" and nn0: "0 \<le> n * n"
    by (simp_all add: abs_mult_self_eq)
  have a: "fl (n * n) = n * n"
    using nn nn0 by (intro fl_small) simp
  have b: "fl (n * n * 15731) = n * n * 15731"
    using nn nn0 by (intro fl_small) simp
  have c: "fl (n * n * 15731 + 789221) = n * n * 15731 + 789221"
    using nn nn0 by (intro fl_small) simp
  let ?d = "n * n * 15731 + 789221"
  have d0: "0 \<le> ?d" and d1: "?d \<le> 1084492924600"
    using nn nn0 by simp_all
  have "\<bar>n\<bar> * ?d \<le> 8303 * 1084492924600"
    using assms d0 d1 by (intro mult_mono) simp_all
  moreover have "\<bar>n * ?d\<bar> = \<bar>n\<bar> * ?d"
    using d0 by (simp add: abs_mult)
  ultimately have z: "\<bar>n * ?d\<bar> \<le> 9004544752953800"
    by simp
  then have p: "fl (n * ?d) = n * ?d"
    by (intro fl_small) simp
  have v: "fl (n * ?d + 1376312589) = n * ?d + 1376312589"
    using z by (intro fl_small) simp
  show ?thesis
    unfolding a b c p v ..
qed

lemma hash_not_all_ones_small:
  assumes "\<bar>n :: int\<bar> \<le> 8303"
  shows "(n * (n * n * 15731 + 789221) + 1376312589) mod 2 ^ 31 \<noteq> 2 ^ 31 - 1"
proof
  let ?g = "\<lambda>m::int. m * (m * m * 15731 + 789221) + 1376312590"
  assume h: "(n * (n * n * 15731 + 789221) + 1376312589) mod 2 ^ 31 = 2 ^ 31 - 1"
  have "?g n mod 2 ^ 31 = ((n * (n * n * 15731 + 789221) + 1376312589) mod 2 ^ 31 + 1) mod 2 ^ 31"
    by (simp add: mod_simps add.commute)
  also have "\<dots> = 0"
    unfolding h by simp
  finally have dv: "2 ^ 31 dvd ?g n"
    by (simp add: dvd_eq_mod_eq_0)
  have fac: "?g a - ?g b = (a - b) * ((a * a + a * b + b * b) * 15731 + 789221)" for a b
    by (simp add: algebra_simps)
  have ev: "even n"
  proof (rule ccontr)
    assume "odd n"
    then have "n mod 4 = 1 \<or> n mod 4 = 3"
      by presburger
    then consider "n mod 4 = 1" | "n mod 4 = 3"
      by blast
    then have r: "?g (n mod 4) mod 4 = 2"
      by cases simp_all
    have "4 dvd n - n mod 4"
      by presburger
    then have "4 dvd ?g n - ?g (n mod 4)"
      unfolding fac by (rule dvd_mult2)
    moreover have "(4::int) dvd 2 ^ 31"
      by simp
    then have "4 dvd ?g n"
      using dv by (rule dvd_trans)
    moreover have "(4::int) dvd B" if "4 dvd A - B" "4 dvd A" for A B
      using that by presburger
    ultimately have "4 dvd ?g (n mod 4)"
      by blast
    with r show False
      by presburger
  qed
  have g0: "2 ^ 31 dvd ?g 433775378"
    by simp
  have "2 ^ 31 dvd ?g n - ?g 433775378"
    using dv g0 by (rule dvd_diff)
  then have dk: "2 ^ 31 dvd
      (n - 433775378) * ((n * n + n * 433775378 + 433775378 * 433775378) * 15731 + 789221)"
    unfolding fac .
  define K where "K = (n * n + n * 433775378 + 433775378 * 433775378) * 15731 + 789221"
  have "odd K"
    using ev by (simp add: K_def)
  then have "coprime 2 K"
    by (simp add: coprime_left_2_iff_odd)
  then have "coprime (2 ^ 31) K"
    by (rule coprime_power_left_iff [THEN iffD2, OF disjI1])
  moreover from dk have "2 ^ 31 dvd (n - 433775378) * K"
    by (simp only: K_def)
  ultimately have "2 ^ 31 dvd n - 433775378"
    by (simp only: coprime_dvd_mult_left_iff)
  moreover have "n - 433775378 \<noteq> 0"
    using assms by simp
  ultimately have "\<bar>(2::int) ^ 31\<bar> \<le> \<bar>n - 433775378\<bar>"
    by (intro dvd_imp_le_int)
  with assms show False
    by simp
qed

lemma hash_not_all_ones:
  "fl (fl (n * fl (fl (fl (n * n) * 15731) + 789221)) + 1376312589) mod 2 ^ 31 \<noteq> 2 ^ 31 - 1"
proof (cases "\<bar>n\<bar> \<le> 8303")
  case True
  then show ?thesis
    unfolding hash_small_exact [OF True] by (rule hash_not_all_ones_small)
next
  case False
  then have "8304 \<le> \<bar>n\<bar>"
    by simp
  from hash_big_even [OF this]
  have "even (fl (fl (n * fl (fl (fl (n * n) * 15731) + 789221)) + 1376312589) mod 2 ^ 31)"
    by (simp add: dvd_mod_iff)
  moreover have "odd ((2::int) ^ 31 - 1)"
    by simp
  ultimately show ?thesis
    by metis
qed

lemma pseudoRandom_bounds: "- 1 \<le> pseudoRandom ix iz \<and> pseudoRandom ix iz \<le> 1"
proof -
  define n where "n = sint (push_bit 13 (ToInt32 (fl (ix + fl (iz * 57)))) XOR ToInt32 (fl (ix + fl (iz * 57))))"
  define k where "k = fl (fl (n * fl (fl (fl (n * n) * 15731) + 789221)) + 1376312589) mod 2 ^ 31"
  have p: "pseudoRandom ix iz = 1 - real_of_int k / 1073741823"
    by (simp add: pseudoRandom_def Let_def sint_masked k_def n_def)
  have "0 \<le> k" "k < 2 ^ 31"
    by (simp_all add: k_def)
  moreover have "k \<noteq> 2 ^ 31 - 1"
    unfolding k_def by (rule hash_not_all_ones)
  ultimately have "0 \<le> k" "k \<le> 2147483646"
    by simp_all
  then have "0 \<le> real_of_int k" "real_of_int k \<le> 2147483646"
    by simp_all
  then show ?thesis
    unfolding p by simp
qed

text \<open>
  Claim C7. For every pair of integers \<open>(ix, iz)\<close> the lattice hash
  \<open>pseudoRandom(ix, iz)\<close> returns a value in the interval \<open>[-1, 1]\<close>.
\<close>

theorem pseudoRandom_range: "- 1 \<le> pseudoRandom ix iz \<and> pseudoRandom ix iz \<le> 1"
  by (rule pseudoRandom_bounds)

lemma pseudoRandom_exact_line:
  assumes "\<bar>iz * 57\<bar> < 2 ^ 53" and "\<bar>ix + iz * 57\<bar> < 2 ^ 53"
  shows "pseudoRandom ix iz =
     (let n = ix + iz * 57;
          n = sint (push_bit 13 (ToInt32 n) XOR ToInt32 n);
          n = fl (fl (n * fl (fl (fl (n * n) * 15731) + 789221)) + 1376312589);
          n = sint (ToInt32 n AND 0x7fffffff)
      in 1.0 - real_of_int n / 1073741823.0)"
proof -
  have a: "fl (iz * 57) = iz * 57"
    using assms(1) by (rule fl_small)
  have b: "fl (ix + iz * 57) = ix + iz * 57"
    using assms(2) by (rule fl_small)
  show ?thesis
    by (simp only: pseudoRandom_def a b)
qed

text \<open>
  Claim C10, as stated: for all integers \<open>pseudoRandom(ix, iz) = pseudoRandom(ix + 57, iz - 1)\<close>.
  The four arguments below are integers that doubles hold exactly, but \<open>iz * 57\<close> exceeds
  \<open>2^53\<close> and is rounded: the combined index is 9007199254741076 on the left and
  9007199254741078 on the right, and the two hash values differ.
\<close>

theorem pseudoRandom_line_counterexample:
  "pseudoRandom 1 158021039556861 \<noteq> pseudoRandom (1 + 57) (158021039556861 - 1)"
proof -
  have a: "fl (1 + fl (158021039556861 * 57)) = 9007199254741076"
    "fl (1 + 57 + fl ((158021039556861 - 1) * 57)) = 9007199254741078"
    by (simp_all add: fl_def Let_def bitlen.simps)
  have b: "sint (push_bit 13 (ToInt32 9007199254741076) XOR ToInt32 9007199254741076) = 688212"
    "sint (push_bit 13 (ToInt32 9007199254741078) XOR ToInt32 9007199254741078) = 704598"
    by (simp_all add: ToInt32_def)
  have c: "fl (fl (688212 * fl (fl (fl (688212 * 688212) * 15731) + 789221)) + 1376312589)
             = 5127705258162547326976"
    "fl (fl (704598 * fl (fl (fl (704598 * 704598) * 15731) + 789221)) + 1376312589)
             = 5502759717616037658624"
    by (simp_all add: fl_def Let_def bitlen.simps)
  have d: "sint (ToInt32 5127705258162547326976 AND 0x7fffffff) = 1364197376"
    "sint (ToInt32 5502759717616037658624 AND 0x7fffffff) = 549453824"
    by (simp_all add: sint_masked)
  have "pseudoRandom 1 158021039556861 = 1.0 - real_of_int 1364197376 / 1073741823.0"
    by (simp only: pseudoRandom_def Let_def a b c d)
  moreover have "pseudoRandom (1 + 57) (158021039556861 - 1) =
      1.0 - real_of_int 549453824 / 1073741823.0"
    by (simp only: pseudoRandom_def Let_def a b c d)
  ultimately show ?thesis
    by simp
qed

text \<open>
  Claim C10, amended: for all integers \<open>ix\<close> and \<open>iz\<close> with \<open>\<bar>ix\<bar> + 57 * (\<bar>iz\<bar> + 1) < 2^53\<close>,
  where the sum \<open>ix + iz * 57\<close> is computed exactly on both sides,
  \<open>pseudoRandom(ix, iz) = pseudoRandom(ix + 57, iz - 1)\<close>: the hash depends on the
  combined index \<open>ix + 57 * iz\<close> only.
\<close>

theorem pseudoRandom_line_invariance:
  assumes "\<bar>ix\<bar> + 57 * (\<bar>iz\<bar> + 1) < 2 ^ 53"
  shows "pseudoRandom ix iz = pseudoRandom (ix + 57) (iz - 1)"
proof -
  have e: "ix + 57 + (iz - 1) * 57 = ix + iz * 57"
    by simp
  from assms have A: "\<bar>ix\<bar> + 57 * (\<bar>iz\<bar> + 1) < 9007199254740992"
    by simp
  from A have "\<bar>iz * 57\<bar> < 9007199254740992"
    by (simp add: abs_mult)
  then have l1: "\<bar>iz * 57\<bar> < 2 ^ 53"
    by simp
  from A have "\<bar>ix + iz * 57\<bar> < 9007199254740992"
    by (simp add: abs_if split: if_splits)
  then have l2: "\<bar>ix + iz * 57\<bar> < 2 ^ 53"
    by simp
  from A have "\<bar>(iz - 1) * 57\<bar> < 9007199254740992"
    by (simp add: abs_if split: if_splits)
  then have r1: "\<bar>(iz - 1) * 57\<bar> < 2 ^ 53"
    by simp
  from l2 have r2: "\<bar>ix + 57 + (iz - 1) * 57\<bar> < 2 ^ 53"
    unfolding e .
  show ?thesis
    unfolding pseudoRandom_exact_line [OF l1 l2] pseudoRandom_exact_line [OF r1 r2] e ..
qed

theorem pseudoRandom_line_invariance_witness:
  "\<bar>5 :: int\<bar> + 57 * (\<bar>3\<bar> + 1) < 2 ^ 53 \<and> pseudoRandom 5 3 = pseudoRandom (5 + 57) (3 - 1)"
  using pseudoRandom_line_invariance [of 5 3] by simp

section \<open>Properties of the height field\<close>

lemma interpolatedNoise_reference: "interpolatedNoise x z f = valueNoise_reference x z f"
  by (simp add: interpolatedNoise_def valueNoise_reference_def smoothWeight_def lerp_def Let_def
      power2_eq_square algebra_simps)

lemma terrainLoop_5:
  "terrainLoop x z 0 t f a n =
     (t + interpolatedNoise x z f * a
        + interpolatedNoise x z (f * 2.1) * (a * 0.45)
        + interpolatedNoise x z (f * 2.1 * 2.1) * (a * 0.45 * 0.45)
        + interpolatedNoise x z (f * 2.1 * 2.1 * 2.1) * (a * 0.45 * 0.45 * 0.45)
        + interpolatedNoise x z (f * 2.1 * 2.1 * 2.1 * 2.1) * (a * 0.45 * 0.45 * 0.45 * 0.45),
      n + a + a * 0.45 + a * 0.45 * 0.45 + a * 0.45 * 0.45 * 0.45 + a * 0.45 * 0.45 * 0.45 * 0.45)"
proof -
  have s: "terrainLoop x z i t f a n =
        (if i < 5 then terrainLoop x z (Suc i) (t + interpolatedNoise x z f * a)
                         (f * 2.1) (a * 0.45) (n + a)
         else (t, n))" for i t f a n
    by (subst terrainLoop.simps)
       (simp add: TERRAIN_OCTAVES_def TERRAIN_LACUNARITY_def TERRAIN_PERSISTENCE_def)
  have "terrainLoop x z 0 t f a n =
        terrainLoop x z (Suc (Suc (Suc (Suc (Suc 0)))))
          (t + interpolatedNoise x z f * a
             + interpolatedNoise x z (f * 2.1) * (a * 0.45)
             + interpolatedNoise x z (f * 2.1 * 2.1) * (a * 0.45 * 0.45)
             + interpolatedNoise x z (f * 2.1 * 2.1 * 2.1) * (a * 0.45 * 0.45 * 0.45)
             + interpolatedNoise x z (f * 2.1 * 2.1 * 2.1 * 2.1) * (a * 0.45 * 0.45 * 0.45 * 0.45))
          (f * 2.1 * 2.1 * 2.1 * 2.1 * 2.1) (a * 0.45 * 0.45 * 0.45 * 0.45 * 0.45)
          (n + a + a * 0.45 + a * 0.45 * 0.45 + a * 0.45 * 0.45 * 0.45
             + a * 0.45 * 0.45 * 0.45 * 0.45)"
    by (subst s, simp, subst s, simp, subst s, simp, subst s, simp, subst s, simp)
  also have "\<dots> = (t + interpolatedNoise x z f * a
        + interpolatedNoise x z (f * 2.1) * (a * 0.45)
        + interpolatedNoise x z (f * 2.1 * 2.1) * (a * 0.45 * 0.45)
        + interpolatedNoise x z (f * 2.1 * 2.1 * 2.1) * (a * 0.45 * 0.45 * 0.45)
        + interpolatedNoise x z (f * 2.1 * 2.1 * 2.1 * 2.1) * (a * 0.45 * 0.45 * 0.45 * 0.45),
      n + a + a * 0.45 + a * 0.45 * 0.45 + a * 0.45 * 0.45 * 0.45 + a * 0.45 * 0.45 * 0.45 * 0.45)"
    by (subst s) simp
  finally show ?thesis .
qed

lemma getTerrainHeight_octaves:
  "getTerrainHeight x z =
     (interpolatedNoise x z 0.04
        + interpolatedNoise x z (0.04 * 2.1) * 0.45
        + interpolatedNoise x z (0.04 * 2.1 * 2.1) * (0.45 * 0.45)
        + interpolatedNoise x z (0.04 * 2.1 * 2.1 * 2.1) * (0.45 * 0.45 * 0.45)
        + interpolatedNoise x z (0.04 * 2.1 * 2.1 * 2.1 * 2.1) * (0.45 * 0.45 * 0.45 * 0.45))
     / (1 + 0.45 + 0.45 * 0.45 + 0.45 * 0.45 * 0.45 + 0.45 * 0.45 * 0.45 * 0.45) * 3.5"
  unfolding getTerrainHeight_def terrainLoop_5 TERRAIN_BASE_FREQUENCY_def TERRAIN_MAX_HEIGHT_def
  by simp

lemma sum_lessThan_5: "(\<Sum>i < (5::nat). g i) = g 0 + g 1 + g 2 + g 3 + (g 4 :: real)"
  by (simp add: eval_nat_numeral lessThan_Suc)

text \<open>
  Claim C5. For every real \<open>(x, z)\<close> the loop of \<open>getTerrainHeight\<close> computes the
  reference definition: the sum over five octaves of smoothstep-interpolated value noise,
  frequency \<open>0.04 * 2.1^i\<close> and amplitude \<open>0.45^i\<close> in octave \<open>i\<close>, divided by the sum of
  the amplitudes and multiplied by 3.5.
\<close>

theorem getTerrainHeight_is_fbm: "getTerrainHeight x z = fbm_reference x z"
  unfolding getTerrainHeight_octaves fbm_reference_def sum_lessThan_5 interpolatedNoise_reference
  by (simp add: eval_nat_numeral)

section \<open>Properties of the placement passes\<close>

lemma sqrt_less_iff_sq: "0 \<le> b \<Longrightarrow> (sqrt a < b) = (a < b * b)"
  by (metis abs_of_nonneg real_sqrt_abs2 real_sqrt_less_iff)

lemma less_sqrt_iff_sq: "0 \<le> b \<Longrightarrow> (b < sqrt a) = (b * b < a)"
  by (metis abs_of_nonneg real_sqrt_abs2 real_sqrt_less_iff)

text \<open>What leaves a retry loop satisfies the negation of the loop's condition.\<close>

lemma treePosition_accepts:
  assumes "treePosition S M p = Some r"
  shows "\<not> sqrt (fst (fst r) * fst (fst r) + snd (fst r) * snd (fst r)) < M"
  by (rule treePosition.raw_induct
        [where P = "\<lambda>S M p r. \<not> sqrt (fst (fst r) * fst (fst r) + snd (fst r) * snd (fst r)) < M",
         OF _ assms])
     (auto simp: Let_def split_beta split: if_splits)

lemma mushroomPosition_accepts:
  assumes "mushroomPosition S M p = Some r"
  shows "\<not> sqrt (fst (fst r) * fst (fst r) + snd (fst r) * snd (fst r)) < M \<and>
         \<not> sqrt (fst (fst r) * fst (fst r) + snd (fst r) * snd (fst r)) > S * 0.9"
  by (rule mushroomPosition.raw_induct
        [where P = "\<lambda>S M p r.
            \<not> sqrt (fst (fst r) * fst (fst r) + snd (fst r) * snd (fst r)) < M \<and>
            \<not> sqrt (fst (fst r) * fst (fst r) + snd (fst r) * snd (fst r)) > S * 0.9",
         OF _ assms])
     (auto simp: Let_def split_beta split: if_splits)

lemma placeTrees_sound:
  "placeTrees n h S M lo hi p = Some (ts, p') \<Longrightarrow>
     length ts = n \<and> (\<forall>t \<in> set ts. M \<le> planarDistance t)"
proof (induction n arbitrary: ts p p')
  case 0
  then show ?case by simp
next
  case (Suc n)
  from Suc.prems obtain x z p1 where pos: "treePosition S M p = Some ((x, z), p1)"
    by (auto split: option.splits)
  from treePosition_accepts [OF pos] have d: "M \<le> sqrt (x * x + z * z)"
    by simp
  from Suc.prems pos obtain rest p2 t where
    rest: "placeTrees n h S M lo hi p2 = Some (rest, p')" and
    ts: "ts = t # rest" and t: "inst_x t = x" "inst_z t = z"
    by (auto simp: Let_def split_beta split: option.splits)
  from Suc.IH [OF rest] d ts t show ?case
    by (simp add: planarDistance_def)
qed

lemma placeMushrooms_sound:
  "placeMushrooms n i tys h S M p = Some (ms, p') \<Longrightarrow>
     length ms = n \<and> (\<forall>m \<in> set ms. M \<le> planarDistance m \<and> planarDistance m \<le> S * 0.9)"
proof (induction n arbitrary: i ms p p')
  case 0
  then show ?case by simp
next
  case (Suc n)
  from Suc.prems obtain x z p1 where pos: "mushroomPosition S M p = Some ((x, z), p1)"
    by (auto split: option.splits)
  from mushroomPosition_accepts [OF pos]
  have d: "M \<le> sqrt (x * x + z * z)" "sqrt (x * x + z * z) \<le> S * 0.9"
    by simp_all
  from Suc.prems pos obtain rest p2 m where
    rest: "placeMushrooms n (i + 1) tys h S M p2 = Some (rest, p')" and
    ms: "ms = m # rest" and m: "inst_x m = x" "inst_z m = z"
    by (auto simp: Let_def split_beta split: option.splits)
  from Suc.IH [OF rest] d ms m show ?case
    by (simp add: planarDistance_def)
qed

text \<open>
  Claim C2. When the tree pass returns, it has placed \<open>TREE_COUNT div 2\<close> deciduous and
  the remaining coniferous trees, and every one of them has planar distance
  \<open>sqrt (x\<^sup>2 + z\<^sup>2)\<close> from the origin at least the configured minimum. When the mushroom
  pass returns, it has placed \<open>MUSHROOM_COUNT\<close> mushrooms, each at a planar distance of at
  least its configured minimum and at most \<open>SPREAD * 0.9\<close>.
\<close>

theorem placement_respects_distance:
  "(createInstancedTrees p h TREE_COUNT S M = Some ((ds, cs), p') \<longrightarrow>
      length ds = TREE_COUNT div 2 \<and> length cs = TREE_COUNT - TREE_COUNT div 2 \<and>
      (\<forall>t \<in> set (ds @ cs). M \<le> planarDistance t)) \<and>
   (createInstancedMushrooms q g MUSHROOM_COUNT S' M' = Some (ms, q') \<longrightarrow>
      length ms = MUSHROOM_COUNT \<and>
      (\<forall>m \<in> set ms. M' \<le> planarDistance m \<and> planarDistance m \<le> S' * 0.9))"
proof (intro conjI impI)
  assume a: "createInstancedTrees p h TREE_COUNT S M = Some ((ds, cs), p')"
  then obtain p1 p2 where
    d: "placeTrees (TREE_COUNT div 2) h S M 0.8 1.2 p1 = Some (ds, p2)" and
    c: "placeTrees (TREE_COUNT - TREE_COUNT div 2) h S M 0.7 1.1 p2 = Some (cs, p')"
    by (auto simp: createInstancedTrees_def Let_def split_beta split: option.splits)
  from placeTrees_sound [OF d] placeTrees_sound [OF c]
  show "length ds = TREE_COUNT div 2" "length cs = TREE_COUNT - TREE_COUNT div 2"
    "\<forall>t \<in> set (ds @ cs). M \<le> planarDistance t"
    by auto
next
  assume a: "createInstancedMushrooms q g MUSHROOM_COUNT S' M' = Some (ms, q')"
  then obtain tys q1 where
    "placeMushrooms MUSHROOM_COUNT 0 tys g S' M' q1 = Some (ms, q')"
    by (auto simp: createInstancedMushrooms_def Let_def split_beta)
  from placeMushrooms_sound [OF this]
  show "length ms = MUSHROOM_COUNT"
    "\<forall>m \<in> set ms. M' \<le> planarDistance m \<and> planarDistance m \<le> S' * 0.9"
    by auto
qed

text \<open>
  The first twenty draws of the placement generator (seed 54321), and the two passes run
  on them: two trees with the constants of the scene, and three mushrooms, for which the
  loop rejects three candidates.
\<close>

lemma placement_draws:
  "random \<lparr>seed = 54321\<rparr> = (1977376442 / 4294967296, \<lparr>seed = 1831620134\<rparr>)"
  "random \<lparr>seed = 1831620134\<rparr> = (2132909012 / 4294967296, \<lparr>seed = 3663185947\<rparr>)"
  "random \<lparr>seed = 3663185947\<rparr> = (552159557 / 4294967296, \<lparr>seed = 5494751760\<rparr>)"
  "random \<lparr>seed = 5494751760\<rparr> = (3297054289 / 4294967296, \<lparr>seed = 7326317573\<rparr>)"
  "random \<lparr>seed = 7326317573\<rparr> = (1462784502 / 4294967296, \<lparr>seed = 9157883386\<rparr>)"
  "random \<lparr>seed = 9157883386\<rparr> = (713281538 / 4294967296, \<lparr>seed = 10989449199\<rparr>)"
  "random \<lparr>seed = 10989449199\<rparr> = (2771779791 / 4294967296, \<lparr>seed = 12821015012\<rparr>)"
  "random \<lparr>seed = 12821015012\<rparr> = (3304214401 / 4294967296, \<lparr>seed = 14652580825\<rparr>)"
  "random \<lparr>seed = 14652580825\<rparr> = (3336369548 / 4294967296, \<lparr>seed = 16484146638\<rparr>)"
  "random \<lparr>seed = 16484146638\<rparr> = (4016290905 / 4294967296, \<lparr>seed = 18315712451\<rparr>)"
  "random \<lparr>seed = 18315712451\<rparr> = (1687649913 / 4294967296, \<lparr>seed = 20147278264\<rparr>)"
  "random \<lparr>seed = 20147278264\<rparr> = (3699549657 / 4294967296, \<lparr>seed = 21978844077\<rparr>)"
  "random \<lparr>seed = 21978844077\<rparr> = (159588890 / 4294967296, \<lparr>seed = 23810409890\<rparr>)"
  "random \<lparr>seed = 23810409890\<rparr> = (2117941828 / 4294967296, \<lparr>seed = 25641975703\<rparr>)"
  "random \<lparr>seed = 25641975703\<rparr> = (23821300 / 4294967296, \<lparr>seed = 27473541516\<rparr>)"
  "random \<lparr>seed = 27473541516\<rparr> = (854245162 / 4294967296, \<lparr>seed = 29305107329\<rparr>)"
  "random \<lparr>seed = 29305107329\<rparr> = (2961020880 / 4294967296, \<lparr>seed = 31136673142\<rparr>)"
  "random \<lparr>seed = 31136673142\<rparr> = (1813505851 / 4294967296, \<lparr>seed = 32968238955\<rparr>)"
  "random \<lparr>seed = 32968238955\<rparr> = (2766607184 / 4294967296, \<lparr>seed = 34799804768\<rparr>)"
  "random \<lparr>seed = 34799804768\<rparr> = (1202891998 / 4294967296, \<lparr>seed = 36631370581\<rparr>)"
  by (simp_all add: random_def fl_small ToInt32_def Let_def)

lemma randFloat_random:
  "random p = (r, p') \<Longrightarrow> randFloat p lo hi = (r * (hi - lo) + lo, p')"
  by (simp add: randFloat_def randFloatWith_def)

lemmas placement_floats = placement_draws [THEN randFloat_random]

lemma treePosition_unfold:
  "treePosition S M p =
     (if sqrt (fst (randFloat p (- S) S) * fst (randFloat p (- S) S)
             + fst (randFloat (snd (randFloat p (- S) S)) (- S) S)
               * fst (randFloat (snd (randFloat p (- S) S)) (- S) S)) < M
      then treePosition S M (snd (randFloat (snd (randFloat p (- S) S)) (- S) S))
      else Some ((fst (randFloat p (- S) S), fst (randFloat (snd (randFloat p (- S) S)) (- S) S)),
                 snd (randFloat (snd (randFloat p (- S) S)) (- S) S)))"
  by (subst treePosition.simps) (simp add: Let_def split_beta)

lemma mushroomPosition_unfold:
  "mushroomPosition S M p =
     (if sqrt (fst (randFloat p (- S) S) * fst (randFloat p (- S) S)
             + fst (randFloat (snd (randFloat p (- S) S)) (- S) S)
               * fst (randFloat (snd (randFloat p (- S) S)) (- S) S)) < M
         \<or> sqrt (fst (randFloat p (- S) S) * fst (randFloat p (- S) S)
             + fst (randFloat (snd (randFloat p (- S) S)) (- S) S)
               * fst (randFloat (snd (randFloat p (- S) S)) (- S) S)) > S * 0.9
      then mushroomPosition S M (snd (randFloat (snd (randFloat p (- S) S)) (- S) S))
      else Some ((fst (randFloat p (- S) S), fst (randFloat (snd (randFloat p (- S) S)) (- S) S)),
                 snd (randFloat (snd (randFloat p (- S) S)) (- S) S)))"
  by (subst mushroomPosition.simps) (simp add: Let_def split_beta)

lemma trees_run:
  "\<exists>d c p. createInstancedTrees getPlacementPrng (\<lambda>x z. 0) 2 20 5 = Some (([d], [c]), p)"
  by (simp add: createInstancedTrees_def createDeciduousTreeGeometry_def
      createConiferousTreeGeometry_def getPlacementPrng_def SeededRandom_new_def
      placement_floats placement_draws Let_def treePosition_unfold sqrt_less_iff_sq)

lemma types_3: "instanceTypes0 (mushroomCounts 3) = [1, 2, 3]"
  by (simp add: mushroomCounts_eq instanceTypes0_def upt_rec)

lemma shuffle_3:
  "shuffleTypes 2 [1, 2, 3] getPlacementPrng = ([3, 1, 2], \<lparr>seed = 3663185947\<rparr>)"
  by (simp add: getPlacementPrng_def SeededRandom_new_def placement_draws Let_def
      eval_nat_numeral)

lemma place_3:
  "\<exists>a b c p. placeMushrooms 3 0 [3, 1, 2] (\<lambda>x z. 0) 20 1 \<lparr>seed = 3663185947\<rparr> =
     Some ([a, b, c], p)"
  by (simp add: placement_floats placement_draws Let_def numeral_3_eq_3
      mushroomPosition_unfold sqrt_less_iff_sq less_sqrt_iff_sq)

lemma mushrooms_run:
  "\<exists>a b c p. createInstancedMushrooms getPlacementPrng (\<lambda>x z. 0) 3 20 1 = Some ([a, b, c], p)"
proof -
  have l: "length [1, 2, 3::nat] - 1 = 2"
    by simp
  show ?thesis
    unfolding createInstancedMushrooms_def types_3 Let_def l shuffle_3 prod.case
    by (rule place_3)
qed

theorem placement_respects_distance_witness:
  "\<exists>d c p m1 m2 m3 q.
     createInstancedTrees getPlacementPrng (\<lambda>x z. 0) 2 20 5 = Some (([d], [c]), p) \<and>
     createInstancedMushrooms getPlacementPrng (\<lambda>x z. 0) 3 20 1 = Some ([m1, m2, m3], q) \<and>
     5 \<le> planarDistance d \<and> 5 \<le> planarDistance c \<and>
     1 \<le> planarDistance m1 \<and> planarDistance m1 \<le> 20 * 0.9 \<and>
     1 \<le> planarDistance m2 \<and> planarDistance m2 \<le> 20 * 0.9 \<and>
     1 \<le> planarDistance m3 \<and> planarDistance m3 \<le> 20 * 0.9"
proof -
  from trees_run obtain d c p where
    t: "createInstancedTrees getPlacementPrng (\<lambda>x z. 0) 2 20 5 = Some (([d], [c]), p)"
    by blast
  from mushrooms_run obtain m1 m2 m3 q where
    m: "createInstancedMushrooms getPlacementPrng (\<lambda>x z. 0) 3 20 1 = Some ([m1, m2, m3], q)"
    by blast
  from placement_respects_distance
         [of getPlacementPrng "\<lambda>x z. 0" 2 20 5 "[d]" "[c]" p
             getPlacementPrng "\<lambda>x z. 0" 3 20 1 "[m1, m2, m3]" q] t m
  have "5 \<le> planarDistance d \<and> 5 \<le> planarDistance c \<and>
     1 \<le> planarDistance m1 \<and> planarDistance m1 \<le> 20 * 0.9 \<and>
     1 \<le> planarDistance m2 \<and> planarDistance m2 \<le> 20 * 0.9 \<and>
     1 \<le> planarDistance m3 \<and> planarDistance m3 \<le> 20 * 0.9"
    by simp
  with t m show ?thesis
    by blast
qed

text \<open>
  Every draw \<open>randFloat(-SPREAD, SPREAD)\<close> is at most \<open>\<bar>SPREAD\<bar>\<close> in absolute value, so a
  candidate is never farther than \<open>sqrt 2 * \<bar>SPREAD\<bar>\<close> from the origin.
\<close>

lemma randFloat_abs_le: "\<bar>fst (randFloat p (- S) S)\<bar> \<le> \<bar>S\<bar>"
proof -
  have "fst (randFloat p (- S) S) = (2 * fst (random p) - 1) * S"
    by (simp add: randFloat_fst algebra_simps)
  moreover have "\<bar>2 * fst (random p) - 1\<bar> \<le> 1"
    using random_ge_0 [of p] random_less_1 [of p] by simp
  ultimately show ?thesis
    by (simp add: abs_mult mult_left_le_one_le)
qed

lemma candidate_dist_le:
  assumes "\<bar>x\<bar> \<le> \<bar>S\<bar>" and "\<bar>z\<bar> \<le> \<bar>S\<bar>"
  shows "sqrt (x * x + z * z) \<le> sqrt 2 * \<bar>S\<bar>"
proof -
  have "x * x \<le> S * S" "z * z \<le> S * S"
    using assms by (simp_all add: abs_le_square_iff power2_eq_square)
  then have "x * x + z * z \<le> 2 * (S * S)"
    by simp
  then have "sqrt (x * x + z * z) \<le> sqrt (2 * (S * S))"
    by (rule real_sqrt_le_mono)
  then show ?thesis
    by (simp add: real_sqrt_mult)
qed

lemma treePosition_unsat:
  assumes "sqrt 2 * \<bar>S\<bar> < M"
  shows "treePosition S M p = None"
proof (rule ccontr)
  assume "treePosition S M p \<noteq> None"
  then obtain r where r: "treePosition S M p = Some r"
    by blast
  have "\<not> sqrt 2 * \<bar>S\<bar> < M"
  proof (rule treePosition.raw_induct [where P = "\<lambda>S M p r. \<not> sqrt 2 * \<bar>S\<bar> < M", OF _ r])
    fix f :: "real \<Rightarrow> real \<Rightarrow> SeededRandom \<Rightarrow> ((real \<times> real) \<times> SeededRandom) option"
      and S M p r
    assume IH: "\<And>S M p r. f S M p = Some r \<Longrightarrow> \<not> sqrt 2 * \<bar>S\<bar> < M"
      and step: "(let (x, prng) = randFloat p (- S) S;
                      (z, prng) = randFloat prng (- S) S;
                      dist = sqrt (x * x + z * z)
                  in if dist < M then f S M prng else Some ((x, z), prng)) = Some r"
    show "\<not> sqrt 2 * \<bar>S\<bar> < M"
    proof
      assume u: "sqrt 2 * \<bar>S\<bar> < M"
      let ?x = "fst (randFloat p (- S) S)"
      let ?p1 = "snd (randFloat p (- S) S)"
      let ?z = "fst (randFloat ?p1 (- S) S)"
      let ?p2 = "snd (randFloat ?p1 (- S) S)"
      have "sqrt (?x * ?x + ?z * ?z) < M"
        using candidate_dist_le [OF randFloat_abs_le randFloat_abs_le, of p S ?p1] u by simp
      with step have "f S M ?p2 = Some r"
        by (simp add: Let_def split_beta)
      from IH [OF this] u show False
        by simp
    qed
  qed
  with assms show False
    by simp
qed

lemma mushroomPosition_unsat:
  assumes "S * 0.9 < M"
  shows "mushroomPosition S M p = None"
proof (rule ccontr)
  assume "mushroomPosition S M p \<noteq> None"
  then obtain r where r: "mushroomPosition S M p = Some r"
    by blast
  have "\<not> S * 0.9 < M"
  proof (rule mushroomPosition.raw_induct [where P = "\<lambda>S M p r. \<not> S * 0.9 < M", OF _ r])
    fix f :: "real \<Rightarrow> real \<Rightarrow> SeededRandom \<Rightarrow> ((real \<times> real) \<times> SeededRandom) option"
      and S M p r
    assume IH: "\<And>S M p r. f S M p = Some r \<Longrightarrow> \<not> S * 0.9 < M"
      and step: "(let (x, prng) = randFloat p (- S) S;
                      (z, prng) = randFloat prng (- S) S;
                      dist = sqrt (x * x + z * z)
                  in if dist < M \<or> dist > S * 0.9 then f S M prng else Some ((x, z), prng)) = Some r"
    show "\<not> S * 0.9 < M"
    proof
      assume u: "S * 0.9 < M"
      let ?p2 = "snd (randFloat (snd (randFloat p (- S) S)) (- S) S)"
      have "d < M \<or> d > S * 0.9" for d :: real
        using u by linarith
      with step have "f S M ?p2 = Some r"
        by (simp add: Let_def split_beta)
      from IH [OF this] u show False
        by simp
    qed
  qed
  with assms show False
    by simp
qed

lemma placeTrees_unsat:
  "0 < n \<Longrightarrow> sqrt 2 * \<bar>S\<bar> < M \<Longrightarrow> placeTrees n h S M lo hi p = None"
  by (cases n) (simp_all add: treePosition_unsat)

lemma placeMushrooms_unsat:
  "0 < n \<Longrightarrow> S * 0.9 < M \<Longrightarrow> placeMushrooms n i tys h S M p = None"
  by (cases n) (simp_all add: mushroomPosition_unsat)

lemma createInstancedTrees_unsat:
  assumes "0 < TREE_COUNT" and "sqrt 2 * \<bar>S\<bar> < M"
  shows "createInstancedTrees p h TREE_COUNT S M = None"
proof -
  have "0 < TREE_COUNT - TREE_COUNT div 2"
    using assms(1) by linarith
  then show ?thesis
    using assms(2)
    by (simp add: createInstancedTrees_def Let_def split_beta placeTrees_unsat
        split: option.splits)
qed

lemma createInstancedMushrooms_unsat:
  assumes "0 < MUSHROOM_COUNT" and "S * 0.9 < M"
  shows "createInstancedMushrooms p h MUSHROOM_COUNT S M = None"
  using assms
  by (simp add: createInstancedMushrooms_def Let_def split_beta placeMushrooms_unsat)

lemma sqrt_2_less: "sqrt 2 * 20 < 30"
proof -
  have "sqrt 2 < 3 / 2"
    by (rule real_less_lsqrt) (simp_all add: power2_eq_square)
  then show ?thesis
    by simp
qed

text \<open>
  Claim C6, as the specification states it: a pass validates its configuration at the
  start and fails fast with a configuration error when the distance constraint cannot be
  met, instead of entering the retry loop. The passes have no validation and no error
  outcome. With the scene's 200 trees and spread 20, and a minimum distance of 30, which
  no candidate reaches, the tree pass enters the loop and returns nothing, no error
  either; the same holds for 150 mushrooms with spread 20 and minimum distance 19, above
  the maximum \<open>20 * 0.9\<close>.
\<close>

theorem no_fail_fast_counterexample:
  "createInstancedTrees getPlacementPrng getTerrainHeight 200 20 30 = None \<and>
   createInstancedMushrooms getPlacementPrng getTerrainHeight 150 20 19 = None"
proof -
  have "sqrt 2 * \<bar>20\<bar> < (30::real)"
    using sqrt_2_less by simp
  then have "createInstancedTrees getPlacementPrng getTerrainHeight 200 20 30 = None"
    by (intro createInstancedTrees_unsat) simp_all
  moreover have "createInstancedMushrooms getPlacementPrng getTerrainHeight 150 20 19 = None"
    by (intro createInstancedMushrooms_unsat) simp_all
  ultimately show ?thesis
    by simp
qed

text \<open>
  Claim C6, amended to what the passes do: no pass validates its configuration. When at
  least one instance is requested and the minimum distance is above the largest distance
  the pass accepts (\<open>sqrt 2 * \<bar>SPREAD\<bar>\<close>, the corner of the square of candidates, for
  trees; \<open>SPREAD * 0.9\<close> for mushrooms), the pass enters the retry loop and never returns,
  so it reports no error, for every seed and every height function.
\<close>

theorem unsatisfiable_pass_never_returns:
  "(0 < TREE_COUNT \<and> sqrt 2 * \<bar>S\<bar> < M \<longrightarrow> createInstancedTrees p h TREE_COUNT S M = None) \<and>
   (0 < MUSHROOM_COUNT \<and> S' * 0.9 < M' \<longrightarrow>
      createInstancedMushrooms q g MUSHROOM_COUNT S' M' = None)"
  using createInstancedTrees_unsat createInstancedMushrooms_unsat by blast

theorem unsatisfiable_pass_never_returns_witness:
  "(0::nat) < 1 \<and> sqrt 2 * \<bar>1\<bar> < (5::real) \<and>
   createInstancedTrees (SeededRandom_new (Some 7) 0) (\<lambda>x z. 0) 1 1 5 = None \<and>
   (0::nat) < 150 \<and> (10::real) * 0.9 < 12 \<and>
   createInstancedMushrooms (SeededRandom_new None 1700000000000) (\<lambda>x z. 0) 150 10 12 = None"
proof -
  have a: "sqrt 2 * \<bar>1\<bar> < (5::real)"
    using sqrt_2_less by simp
  have b: "(0::nat) < 1" "(0::nat) < 150" "(10::real) * 0.9 < 12"
    by simp_all
  from unsatisfiable_pass_never_returns
         [of 1 1 5 "SeededRandom_new (Some 7) 0" "\<lambda>x z. 0" 150 10 12
             "SeededRandom_new None 1700000000000" "\<lambda>x z. 0"] a b
  show ?thesis
    by simp
qed

section \<open>Continuity of the height field\<close>

text \<open>
  The weight \<open>t\<^sup>2(3 - 2t)\<close> changes by at most \<open>3/2\<close> times the change of \<open>t\<close> on \<open>[0, 1]\<close>, and
  it is 0 at 0 and 1 at 1, so a row of the interpolation takes the lattice value itself at
  every lattice point, from the left and from the right.
\<close>

lemma smoothWeight_lipschitz:
  assumes "0 \<le> u" "u \<le> 1" "0 \<le> w" "w \<le> 1"
  shows "\<bar>smoothWeight u - smoothWeight w\<bar> \<le> 3 / 2 * \<bar>u - w\<bar>"
proof -
  define P where "P = 3 * (u + w) - 2 * (u * u + u * w + w * w)"
  have f: "smoothWeight u - smoothWeight w = (u - w) * P"
    by (simp add: smoothWeight_def P_def power2_eq_square algebra_simps)
  have "3 / 2 - P = (u + w - 1)\<^sup>2 + (u - 1 / 2)\<^sup>2 + (w - 1 / 2)\<^sup>2"
    by (simp add: P_def power2_eq_square algebra_simps)
  then have up: "P \<le> 3 / 2"
    by (smt (verit) zero_le_power2)
  have "P = u * (3 - 2 * u - w) + w * (3 - 2 * w - u)"
    by (simp add: P_def algebra_simps)
  moreover have "0 \<le> u * (3 - 2 * u - w)" "0 \<le> w * (3 - 2 * w - u)"
    using assms by (intro mult_nonneg_nonneg; simp)+
  ultimately have lo: "0 \<le> P"
    by simp
  have "\<bar>(u - w) * P\<bar> = \<bar>u - w\<bar> * P"
    using lo by (simp add: abs_mult)
  also have "\<dots> \<le> \<bar>u - w\<bar> * (3 / 2)"
    using up by (intro mult_left_mono) simp_all
  finally show ?thesis
    unfolding f by (simp add: mult.commute)
qed

lemma smoothWeight_0 [simp]: "smoothWeight 0 = 0"
  and smoothWeight_1 [simp]: "smoothWeight 1 = 1"
  by (simp_all add: smoothWeight_def)

lemma smoothWeight_unit:
  assumes "0 \<le> t" "t \<le> 1"
  shows "0 \<le> smoothWeight t" "smoothWeight t \<le> 1"
proof -
  show "0 \<le> smoothWeight t"
    using assms by (simp add: smoothWeight_def)
  have "1 - smoothWeight t = (1 - t)\<^sup>2 * (1 + 2 * t)"
    by (simp add: smoothWeight_def power2_eq_square algebra_simps)
  moreover have "0 \<le> (1 - t)\<^sup>2 * (1 + 2 * t)"
    using assms by (intro mult_nonneg_nonneg) simp_all
  ultimately show "smoothWeight t \<le> 1"
    by simp
qed

lemma latticeRow_cell:
  assumes "of_int k \<le> u" "u \<le> of_int k + 1"
  shows "latticeRow a u = a k + (a (k + 1) - a k) * smoothWeight (u - of_int k)"
proof (cases "u < of_int k + 1")
  case True
  with assms(1) have "\<lfloor>u\<rfloor> = k"
    by linarith
  then show ?thesis
    by (simp add: latticeRow_def lerp_def algebra_simps)
next
  case False
  with assms(2) have u: "u = of_int (k + 1)"
    by simp
  then have "\<lfloor>u\<rfloor> = k + 1"
    by simp
  then show ?thesis
    by (simp add: latticeRow_def lerp_def u)
qed

lemma latticeRow_lipschitz_cell:
  assumes a: "\<And>k. \<bar>a k\<bar> \<le> 1"
    and "of_int k \<le> s" "s \<le> t" "t \<le> of_int k + 1"
  shows "\<bar>latticeRow a t - latticeRow a s\<bar> \<le> 3 * (t - s)"
proof -
  have s: "latticeRow a s = a k + (a (k + 1) - a k) * smoothWeight (s - of_int k)"
    using assms by (intro latticeRow_cell) simp_all
  have t: "latticeRow a t = a k + (a (k + 1) - a k) * smoothWeight (t - of_int k)"
    using assms by (intro latticeRow_cell) simp_all
  have d: "\<bar>a (k + 1) - a k\<bar> \<le> 2"
    using a [of k] a [of "k + 1"] by simp
  have "\<bar>smoothWeight (t - of_int k) - smoothWeight (s - of_int k)\<bar>
          \<le> 3 / 2 * \<bar>(t - of_int k) - (s - of_int k)\<bar>"
    using assms by (intro smoothWeight_lipschitz) simp_all
  then have w: "\<bar>smoothWeight (t - of_int k) - smoothWeight (s - of_int k)\<bar> \<le> 3 / 2 * (t - s)"
    using assms by simp
  have "latticeRow a t - latticeRow a s =
          (a (k + 1) - a k) * (smoothWeight (t - of_int k) - smoothWeight (s - of_int k))"
    unfolding s t by (simp add: algebra_simps)
  then have "\<bar>latticeRow a t - latticeRow a s\<bar> =
          \<bar>a (k + 1) - a k\<bar> * \<bar>smoothWeight (t - of_int k) - smoothWeight (s - of_int k)\<bar>"
    by (simp add: abs_mult)
  also have "\<dots> \<le> 2 * (3 / 2 * (t - s))"
    using d w by (intro mult_mono) simp_all
  finally show ?thesis
    by simp
qed

lemma latticeRow_lipschitz:
  assumes a: "\<And>k. \<bar>a k\<bar> \<le> 1" and "s \<le> t"
  shows "\<bar>latticeRow a t - latticeRow a s\<bar> \<le> 3 * (t - s)"
  using assms(2)
proof (induction "nat (\<lfloor>t\<rfloor> - \<lfloor>s\<rfloor>)" arbitrary: s)
  case 0
  then have "\<lfloor>t\<rfloor> = \<lfloor>s\<rfloor>"
    using floor_mono [of s t] by simp
  then have "of_int \<lfloor>s\<rfloor> \<le> s" "t \<le> of_int \<lfloor>s\<rfloor> + 1"
    by (simp_all, linarith)
  with 0(2) show ?case
    by (intro latticeRow_lipschitz_cell [OF a, of "\<lfloor>s\<rfloor>"])
next
  case (Suc n)
  define k where "k = \<lfloor>s\<rfloor> + 1"
  from Suc(2) have lt: "\<lfloor>s\<rfloor> < \<lfloor>t\<rfloor>"
    by simp
  then have kt: "of_int k \<le> t"
    unfolding k_def by linarith
  have sk: "s \<le> of_int k"
    unfolding k_def by linarith
  have "n = nat (\<lfloor>t\<rfloor> - \<lfloor>of_int k :: real\<rfloor>)"
    using Suc(2) by (simp add: k_def)
  from Suc(1) [OF this kt] have 1: "\<bar>latticeRow a t - latticeRow a (of_int k)\<bar> \<le> 3 * (t - of_int k)" .
  have 2: "\<bar>latticeRow a (of_int k) - latticeRow a s\<bar> \<le> 3 * (of_int k - s)"
    using sk by (intro latticeRow_lipschitz_cell [OF a, of "\<lfloor>s\<rfloor>"]) (simp_all add: k_def)
  have "\<bar>latticeRow a t - latticeRow a s\<bar> \<le>
          \<bar>latticeRow a t - latticeRow a (of_int k)\<bar> + \<bar>latticeRow a (of_int k) - latticeRow a s\<bar>"
    using abs_triangle_ineq [of "latticeRow a t - latticeRow a (of_int k)"
        "latticeRow a (of_int k) - latticeRow a s"] by simp
  with 1 2 show ?case
    by simp
qed


lemma interpolatedNoise_rows:
  "interpolatedNoise x z f =
     lerp (latticeRow (\<lambda>k. pseudoRandom k \<lfloor>z * f\<rfloor>) (x * f))
          (latticeRow (\<lambda>k. pseudoRandom k (\<lfloor>z * f\<rfloor> + 1)) (x * f))
          (smoothWeight (z * f - of_int \<lfloor>z * f\<rfloor>))"
  by (simp add: interpolatedNoise_def latticeRow_def smoothWeight_def Let_def power2_eq_square)

lemma pseudoRandom_abs: "\<bar>pseudoRandom ix iz\<bar> \<le> 1"
  using pseudoRandom_bounds [of ix iz] by (simp add: abs_le_iff)

lemma interpolatedNoise_lipschitz:
  assumes "0 \<le> f" and "0 \<le> \<epsilon>"
  shows "\<bar>interpolatedNoise (x + \<epsilon>) z f - interpolatedNoise x z f\<bar> \<le> 3 * f * \<epsilon>"
proof -
  define w where "w = smoothWeight (z * f - of_int \<lfloor>z * f\<rfloor>)"
  define A where "A = latticeRow (\<lambda>k. pseudoRandom k \<lfloor>z * f\<rfloor>)"
  define B where "B = latticeRow (\<lambda>k. pseudoRandom k (\<lfloor>z * f\<rfloor> + 1))"
  have w: "0 \<le> w" "w \<le> 1"
    unfolding w_def by (intro smoothWeight_unit; linarith)+
  have le: "x * f \<le> (x + \<epsilon>) * f"
    using assms by (simp add: algebra_simps)
  have d: "(x + \<epsilon>) * f - x * f = f * \<epsilon>"
    by (simp add: algebra_simps)
  have a: "\<bar>A ((x + \<epsilon>) * f) - A (x * f)\<bar> \<le> 3 * (f * \<epsilon>)"
    unfolding A_def using latticeRow_lipschitz [OF pseudoRandom_abs le] d by simp
  have b: "\<bar>B ((x + \<epsilon>) * f) - B (x * f)\<bar> \<le> 3 * (f * \<epsilon>)"
    unfolding B_def using latticeRow_lipschitz [OF pseudoRandom_abs le] d by simp
  have "interpolatedNoise (x + \<epsilon>) z f - interpolatedNoise x z f =
          (1 - w) * (A ((x + \<epsilon>) * f) - A (x * f)) + w * (B ((x + \<epsilon>) * f) - B (x * f))"
    by (simp add: interpolatedNoise_rows lerp_def w_def A_def B_def algebra_simps)
  also have "\<bar>\<dots>\<bar> \<le> \<bar>(1 - w) * (A ((x + \<epsilon>) * f) - A (x * f))\<bar> + \<bar>w * (B ((x + \<epsilon>) * f) - B (x * f))\<bar>"
    by (rule abs_triangle_ineq)
  also have "\<dots> = (1 - w) * \<bar>A ((x + \<epsilon>) * f) - A (x * f)\<bar> + w * \<bar>B ((x + \<epsilon>) * f) - B (x * f)\<bar>"
    using w by (simp add: abs_mult)
  also have "\<dots> \<le> (1 - w) * (3 * (f * \<epsilon>)) + w * (3 * (f * \<epsilon>))"
    using w a b by (intro add_mono mult_left_mono) simp_all
  also have "\<dots> = 3 * f * \<epsilon>"
    by (simp add: algebra_simps)
  finally show ?thesis .
qed

lemma getTerrainHeight_lipschitz:
  assumes "0 \<le> \<epsilon>"
  shows "\<bar>getTerrainHeight (x + \<epsilon>) z - getTerrainHeight x z\<bar> \<le> 11 / 10 * \<epsilon>"
proof -
  define d where "d f = interpolatedNoise (x + \<epsilon>) z f - interpolatedNoise x z f" for f
  define T where "T = d 0.04 + d (0.04 * 2.1) * 0.45 + d (0.04 * 2.1 * 2.1) * (0.45 * 0.45)
        + d (0.04 * 2.1 * 2.1 * 2.1) * (0.45 * 0.45 * 0.45)
        + d (0.04 * 2.1 * 2.1 * 2.1 * 2.1) * (0.45 * 0.45 * 0.45 * 0.45)"
  have l: "\<bar>d f\<bar> \<le> 3 * f * \<epsilon>" if "0 \<le> f" for f
    unfolding d_def using that assms by (rule interpolatedNoise_lipschitz)
  have e: "getTerrainHeight (x + \<epsilon>) z - getTerrainHeight x z =
     T / (1 + 0.45 + 0.45 * 0.45 + 0.45 * 0.45 * 0.45 + 0.45 * 0.45 * 0.45 * 0.45) * 3.5"
    unfolding getTerrainHeight_octaves T_def d_def
    by (simp add: algebra_simps diff_divide_distrib)
  have b: "\<bar>d 0.04\<bar> \<le> 3 * 0.04 * \<epsilon>"
    "\<bar>d (0.04 * 2.1)\<bar> \<le> 3 * (0.04 * 2.1) * \<epsilon>"
    "\<bar>d (0.04 * 2.1 * 2.1)\<bar> \<le> 3 * (0.04 * 2.1 * 2.1) * \<epsilon>"
    "\<bar>d (0.04 * 2.1 * 2.1 * 2.1)\<bar> \<le> 3 * (0.04 * 2.1 * 2.1 * 2.1) * \<epsilon>"
    "\<bar>d (0.04 * 2.1 * 2.1 * 2.1 * 2.1)\<bar> \<le> 3 * (0.04 * 2.1 * 2.1 * 2.1 * 2.1) * \<epsilon>"
    by (rule l, simp)+
  have "\<bar>T\<bar> \<le> \<bar>d 0.04\<bar> + \<bar>d (0.04 * 2.1)\<bar> * 0.45 + \<bar>d (0.04 * 2.1 * 2.1)\<bar> * (0.45 * 0.45)
        + \<bar>d (0.04 * 2.1 * 2.1 * 2.1)\<bar> * (0.45 * 0.45 * 0.45)
        + \<bar>d (0.04 * 2.1 * 2.1 * 2.1 * 2.1)\<bar> * (0.45 * 0.45 * 0.45 * 0.45)"
    unfolding T_def by (intro order_trans [OF abs_triangle_ineq] add_mono) (simp_all add: abs_mult)
  also have "\<dots> \<le> 3 * 0.04 * \<epsilon> + 3 * (0.04 * 2.1) * \<epsilon> * 0.45
        + 3 * (0.04 * 2.1 * 2.1) * \<epsilon> * (0.45 * 0.45)
        + 3 * (0.04 * 2.1 * 2.1 * 2.1) * \<epsilon> * (0.45 * 0.45 * 0.45)
        + 3 * (0.04 * 2.1 * 2.1 * 2.1 * 2.1) * \<epsilon> * (0.45 * 0.45 * 0.45 * 0.45)"
    using b by (intro add_mono mult_right_mono) simp_all
  finally have t: "\<bar>T\<bar> \<le> 0.537531273075 * \<epsilon>"
    by simp
  have "\<bar>T / (1 + 0.45 + 0.45 * 0.45 + 0.45 * 0.45 * 0.45 + 0.45 * 0.45 * 0.45 * 0.45) * 3.5\<bar>
          = \<bar>T\<bar> * (3.5 / 1.78463125)"
    by (simp add: abs_mult)
  also have "\<dots> \<le> 0.537531273075 * \<epsilon> * (3.5 / 1.78463125)"
    using t by (intro mult_right_mono) simp_all
  also have "\<dots> \<le> 11 / 10 * \<epsilon>"
    using assms by simp
  finally show ?thesis
    unfolding e .
qed

text \<open>
  Claim C8. The height field has no discontinuity, at lattice boundaries or elsewhere: for
  every \<open>z\<close>, every \<open>x\<close> and every \<open>\<epsilon> \<ge> 0\<close> the difference
  \<open>\<bar>getTerrainHeight(x + \<epsilon>, z) - getTerrainHeight(x, z)\<bar>\<close> is at most \<open>1.1 * \<epsilon>\<close>.
\<close>

theorem getTerrainHeight_continuous:
  "0 \<le> \<epsilon> \<Longrightarrow> \<bar>getTerrainHeight (x + \<epsilon>) z - getTerrainHeight x z\<bar> \<le> 11 / 10 * \<epsilon>"
  by (rule getTerrainHeight_lipschitz)

theorem getTerrainHeight_continuous_witness:
  "(0::real) \<le> 1 / 10000 \<and>
   \<bar>getTerrainHeight (5 + 1 / 10000) 3 - getTerrainHeight 5 3\<bar> \<le> 11 / 10 * (1 / 10000)"
  using getTerrainHeight_continuous [of "1 / 10000" 5 3] by simp

end
